theory Spec2Isabelle
  imports Main "HOL-Library.Word"
begin

section \<open>JavaScript strings\<close>

text \<open>
  The texts the services handle (prompts, labels, messages, the output of a model) are
  modelled as values of \<^typ>\<open>string\<close>: their alphabet is the code units 0x00 to 0xFF.
  The built-in string operations the services call are written out below for that
  alphabet. The strings inside a parsed JSON value are lists of 16-bit code units, since
  an escape of a JSON text can name every code unit.
\<close>

definition is_js_space :: "char \<Rightarrow> bool" where
  \<comment> \<open>WhiteSpace and LineTerminator of ECMAScript, as far as they lie in the alphabet:
      TAB, LF, VT, FF, CR, SP, NBSP.\<close>
  "is_js_space c \<longleftrightarrow>
     c \<in> set [CHR 0x09, CHR 0x0A, CHR 0x0B, CHR 0x0C, CHR 0x0D, CHR 0x20, CHR 0xA0]"

definition trim :: "string \<Rightarrow> string" where
  \<comment> \<open>\<open>String.prototype.trim\<close>\<close>
  "trim s = rev (dropWhile is_js_space (rev (dropWhile is_js_space s)))"

fun startsWith :: "string \<Rightarrow> string \<Rightarrow> bool" where
  \<comment> \<open>\<open>startsWith p s\<close>: the text \<open>s\<close> begins with \<open>p\<close>\<close>
  "startsWith [] s = True"
| "startsWith (p # ps) [] = False"
| "startsWith (p # ps) (c # cs) = (p = c \<and> startsWith ps cs)"

fun occurs :: "string \<Rightarrow> string \<Rightarrow> bool" where
  \<comment> \<open>\<open>occurs p s\<close>: the text \<open>s\<close> has an occurrence of \<open>p\<close>\<close>
  "occurs p [] = (p = [])"
| "occurs p (c # cs) = (startsWith p (c # cs) \<or> occurs p cs)"

function replace_g :: "string \<Rightarrow> string \<Rightarrow> string \<Rightarrow> string" where
  \<comment> \<open>\<open>s.replace(/p/g, r)\<close> for a pattern \<open>p\<close> of literal characters and a replacement
      \<open>r\<close> without \<open>$\<close>: every match, found from left to right without overlap, is
      replaced. The empty pattern matches before every character and at the end.\<close>
  "replace_g p r [] = (if p = [] then r else [])"
| "replace_g p r (c # cs) =
     (if p = [] then r @ c # replace_g p r cs
      else if startsWith p (c # cs) then r @ replace_g p r (drop (length p) (c # cs))
      else c # replace_g p r cs)"
  by pat_completeness auto
termination
  by (relation "measure (\<lambda>(p, r, s). length s)") (auto simp: neq_Nil_conv)

fun join :: "string list \<Rightarrow> string \<Rightarrow> string" where
  \<comment> \<open>\<open>Array.prototype.join\<close> on an array of strings\<close>
  "join [] sep = []"
| "join [x] sep = x"
| "join (x # y # ys) sep = x @ sep @ join (y # ys) sep"

section \<open>JSON values and \<open>JSON.parse\<close>\<close>

text \<open>
  \<open>JSON.parse\<close> is modelled in two steps. The lexer and the parser read the text into
  its tree, or refuse it; \<open>value_of\<close> gives the JavaScript value of a tree. A string of
  a tree or of a value is the list of its UTF-16 code units. A number of a tree is its
  lexeme; a number of a value is a double, written as the 64 bits of its binary64
  format. The conversion of a lexeme into the nearest double is done by the engine: it
  is an argument of \<open>JSON_parse\<close> and the services take it from the host. An object
  value lists its properties in the order in which their names first occur in the text,
  each name once with the value of its last member, as \<open>JSON.parse\<close> defines a
  property again when a name is repeated.
\<close>

type_synonym utf16 = "16 word list"

type_synonym double = "64 word"

definition code_unit :: "char \<Rightarrow> 16 word" where
  "code_unit c = of_nat (of_char c)"

definition units :: "string \<Rightarrow> utf16" where
  \<comment> \<open>the code units of a text\<close>
  "units s = map code_unit s"

datatype node =
    NNull
  | NBool bool
  | NNumber string
  | NString utf16
  | NArray "node list"
  | NObject "(utf16 \<times> node) list"

datatype json =
    JNull
  | JBool bool
  | JNumber double
  | JString utf16
  | JArray "json list"
  | JObject "(utf16 \<times> json) list"

datatype token =
    TLBrace | TRBrace | TLBrack | TRBrack | TColon | TComma
  | TStr utf16 | TWord node

definition is_json_space :: "char \<Rightarrow> bool" where
  "is_json_space c \<longleftrightarrow> c \<in> set [CHR 0x20, CHR 0x09, CHR 0x0A, CHR 0x0D]"

definition char_between :: "char \<Rightarrow> char \<Rightarrow> char \<Rightarrow> bool" where
  \<comment> \<open>comparison of code units\<close>
  "char_between lo hi c \<longleftrightarrow>
     (of_char lo :: nat) \<le> of_char c \<and> (of_char c :: nat) \<le> of_char hi"

definition is_digit :: "char \<Rightarrow> bool" where
  "is_digit c \<longleftrightarrow> char_between (CHR ''0'') (CHR ''9'') c"

definition is_word_char :: "char \<Rightarrow> bool" where
  \<comment> \<open>the characters of a number or of \<open>true\<close>, \<open>false\<close>, \<open>null\<close>\<close>
  "is_word_char c \<longleftrightarrow>
     is_digit c \<or> char_between (CHR ''a'') (CHR ''z'') c \<or> char_between (CHR ''A'') (CHR ''Z'') c
     \<or> c = CHR ''-'' \<or> c = CHR ''+'' \<or> c = CHR ''.''"

definition is_exponent :: "string \<Rightarrow> bool" where
  \<comment> \<open>empty, or \<open>e\<close>/\<open>E\<close>, an optional sign and at least one digit\<close>
  "is_exponent s =
     (case s of
        [] \<Rightarrow> True
      | e # r \<Rightarrow> (e = CHR ''e'' \<or> e = CHR ''E'') \<and>
          (let d = (case r of
                      [] \<Rightarrow> []
                    | x # t \<Rightarrow> if x = CHR ''+'' \<or> x = CHR ''-'' then t else r)
           in d \<noteq> [] \<and> list_all is_digit d))"

definition is_fraction :: "string \<Rightarrow> bool" where
  \<comment> \<open>an optional \<open>.\<close> with at least one digit, then the exponent part\<close>
  "is_fraction s =
     (case s of
        [] \<Rightarrow> True
      | x # r \<Rightarrow>
          if x = CHR ''.''
          then takeWhile is_digit r \<noteq> [] \<and> is_exponent (dropWhile is_digit r)
          else is_exponent s)"

definition is_number :: "string \<Rightarrow> bool" where
  \<comment> \<open>the number grammar of JSON: \<open>-?(0|[1-9][0-9]*)(\.[0-9]+)?([eE][+-]?[0-9]+)?\<close>\<close>
  "is_number s =
     (let u = (case s of [] \<Rightarrow> [] | x # r \<Rightarrow> if x = CHR ''-'' then r else s);
          i = takeWhile is_digit u
      in i \<noteq> [] \<and> (i = ''0'' \<or> \<not> startsWith ''0'' i) \<and> is_fraction (dropWhile is_digit u))"

definition word_token :: "string \<Rightarrow> token option" where
  "word_token w =
     (if w = ''true'' then Some (TWord (NBool True))
      else if w = ''false'' then Some (TWord (NBool False))
      else if w = ''null'' then Some (TWord NNull)
      else if is_number w then Some (TWord (NNumber w))
      else None)"

definition unescape :: "char \<Rightarrow> char option" where
  \<comment> \<open>the character after a backslash in a string: \<open>" \ / b f n r t\<close>\<close>
  "unescape c =
     (if c = CHR 0x22 then Some (CHR 0x22)
      else if c = CHR 0x5C then Some (CHR 0x5C)
      else if c = CHR ''/'' then Some (CHR ''/'')
      else if c = CHR ''b'' then Some (CHR 0x08)
      else if c = CHR ''f'' then Some (CHR 0x0C)
      else if c = CHR ''n'' then Some (CHR 0x0A)
      else if c = CHR ''r'' then Some (CHR 0x0D)
      else if c = CHR ''t'' then Some (CHR 0x09)
      else None)"

definition hex_value :: "char \<Rightarrow> nat option" where
  "hex_value c =
     (if is_digit c then Some (of_char c - of_char (CHR ''0''))
      else if char_between (CHR ''a'') (CHR ''f'') c then Some (of_char c - of_char (CHR ''a'') + 10)
      else if char_between (CHR ''A'') (CHR ''F'') c then Some (of_char c - of_char (CHR ''A'') + 10)
      else None)"

datatype lstate =
    LStart                    \<comment> \<open>between tokens\<close>
  | LWord string              \<comment> \<open>inside a number or a literal name\<close>
  | LStr utf16                \<comment> \<open>inside a string, with the code units read so far\<close>
  | LEsc utf16                \<comment> \<open>after a backslash in a string\<close>
  | LUni utf16 "nat list"     \<comment> \<open>after \<open>\u\<close>, with the hex digits read so far\<close>

definition lstep_start :: "char \<Rightarrow> (token list \<times> lstate) option" where
  "lstep_start c =
     (if is_json_space c then Some ([], LStart)
      else if c = CHR ''{'' then Some ([TLBrace], LStart)
      else if c = CHR ''}'' then Some ([TRBrace], LStart)
      else if c = CHR ''['' then Some ([TLBrack], LStart)
      else if c = CHR '']'' then Some ([TRBrack], LStart)
      else if c = CHR '':'' then Some ([TColon], LStart)
      else if c = CHR '','' then Some ([TComma], LStart)
      else if c = CHR 0x22 then Some ([], LStr [])
      else if is_word_char c then Some ([], LWord [c])
      else None)"

fun lstep :: "lstate \<Rightarrow> char \<Rightarrow> (token list \<times> lstate) option" where
  "lstep LStart c = lstep_start c"
| "lstep (LWord w) c =
     (if is_word_char c then Some ([], LWord (w @ [c]))
      else case word_token w of
             None \<Rightarrow> None
           | Some t \<Rightarrow> (case lstep_start c of
                         None \<Rightarrow> None
                       | Some (ts, st) \<Rightarrow> Some (t # ts, st)))"
| "lstep (LStr s) c =
     (if c = CHR 0x22 then Some ([TStr s], LStart)
      else if c = CHR 0x5C then Some ([], LEsc s)
      else if (of_char c :: nat) < 0x20 then None
      else Some ([], LStr (s @ [code_unit c])))"
| "lstep (LEsc s) c =
     (case unescape c of
        Some d \<Rightarrow> Some ([], LStr (s @ [code_unit d]))
      | None \<Rightarrow> if c = CHR ''u'' then Some ([], LUni s []) else None)"
| "lstep (LUni s hs) c =
     (case hex_value c of
        None \<Rightarrow> None
      | Some h \<Rightarrow>
          if length hs < 3 then Some ([], LUni s (hs @ [h]))
          else Some ([], LStr (s @ [of_nat (fold (\<lambda>d a. 16 * a + d) (hs @ [h]) 0)])))"

fun lfinish :: "lstate \<Rightarrow> token list option" where
  "lfinish LStart = Some []"
| "lfinish (LWord w) = map_option (\<lambda>t. [t]) (word_token w)"
| "lfinish (LStr s) = None"
| "lfinish (LEsc s) = None"
| "lfinish (LUni s hs) = None"

fun lex_run :: "lstate \<Rightarrow> string \<Rightarrow> token list option" where
  "lex_run st [] = lfinish st"
| "lex_run st (c # cs) =
     (case lstep st c of
        None \<Rightarrow> None
      | Some (ts, st') \<Rightarrow> map_option ((@) ts) (lex_run st' cs))"

text \<open>
  The parser works on the tokens by recursive descent: a value, the elements of an array
  after its opening bracket, the members of an object after its opening brace. Its first
  argument bounds the depth of the calls. \<open>JSON_tree\<close> gives it twice the number of
  tokens, which is enough for every text (\<open>JSON_tree_unbounded\<close> below).
\<close>

datatype start =
    Scalar node "token list"     \<comment> \<open>a complete value and the tokens after it\<close>
  | OpenArray "token list"       \<comment> \<open>\<open>[\<close> before a first element\<close>
  | OpenObject "token list"      \<comment> \<open>\<open>{\<close> before a first member\<close>
  | NoValue

fun value_start :: "token list \<Rightarrow> start" where
  "value_start (TStr s # r) = Scalar (NString s) r"
| "value_start (TWord v # r) = Scalar v r"
| "value_start (TLBrack # TRBrack # r) = Scalar (NArray []) r"
| "value_start (TLBrack # r) = OpenArray r"
| "value_start (TLBrace # TRBrace # r) = Scalar (NObject []) r"
| "value_start (TLBrace # r) = OpenObject r"
| "value_start ts = NoValue"

datatype follow =
    More "token list"      \<comment> \<open>a comma\<close>
  | Close "token list"     \<comment> \<open>the closing bracket or brace\<close>
  | Stop

fun element_follow :: "token list \<Rightarrow> follow" where
  "element_follow (TComma # r) = More r"
| "element_follow (TRBrack # r) = Close r"
| "element_follow ts = Stop"

fun member_follow :: "token list \<Rightarrow> follow" where
  "member_follow (TComma # r) = More r"
| "member_follow (TRBrace # r) = Close r"
| "member_follow ts = Stop"

fun member_key :: "token list \<Rightarrow> (utf16 \<times> token list) option" where
  "member_key (TStr k # TColon # r) = Some (k, r)"
| "member_key ts = None"

fun parse_value :: "nat \<Rightarrow> token list \<Rightarrow> (node \<times> token list) option"
  and parse_elements :: "nat \<Rightarrow> node list \<Rightarrow> token list \<Rightarrow> (node \<times> token list) option"
  and parse_members :: "nat \<Rightarrow> (utf16 \<times> node) list \<Rightarrow> token list \<Rightarrow> (node \<times> token list) option"
where
  "parse_value 0 ts = None"
| "parse_value (Suc n) ts =
     (case value_start ts of
        Scalar v r \<Rightarrow> Some (v, r)
      | OpenArray r \<Rightarrow> parse_elements n [] r
      | OpenObject r \<Rightarrow> parse_members n [] r
      | NoValue \<Rightarrow> None)"
| "parse_elements 0 acc ts = None"
| "parse_elements (Suc n) acc ts =
     (case parse_value n ts of
        None \<Rightarrow> None
      | Some (v, r) \<Rightarrow>
          (case element_follow r of
             More r' \<Rightarrow> parse_elements n (acc @ [v]) r'
           | Close r' \<Rightarrow> Some (NArray (acc @ [v]), r')
           | Stop \<Rightarrow> None))"
| "parse_members 0 acc ts = None"
| "parse_members (Suc n) acc ts =
     (case member_key ts of
        None \<Rightarrow> None
      | Some (k, r) \<Rightarrow>
          (case parse_value n r of
             None \<Rightarrow> None
           | Some (v, r1) \<Rightarrow>
               (case member_follow r1 of
                  More r' \<Rightarrow> parse_members n (acc @ [(k, v)]) r'
                | Close r' \<Rightarrow> Some (NObject (acc @ [(k, v)]), r')
                | Stop \<Rightarrow> None)))"

definition JSON_tree :: "string \<Rightarrow> node option" where
  \<comment> \<open>the tree of a JSON text; \<open>None\<close> when the text is not one\<close>
  "JSON_tree s =
     (case lex_run LStart s of
        None \<Rightarrow> None
      | Some ts \<Rightarrow> (case parse_value (2 * length ts) ts of
                     Some (v, []) \<Rightarrow> Some v
                   | _ \<Rightarrow> None))"

fun put_member :: "(utf16 \<times> json) list \<Rightarrow> utf16 \<Rightarrow> json \<Rightarrow> (utf16 \<times> json) list" where
  \<comment> \<open>the property \<open>k\<close> is created, or defined again where it stands\<close>
  "put_member [] k v = [(k, v)]"
| "put_member ((k', v') # ms) k v =
     (if k' = k then (k, v) # ms else (k', v') # put_member ms k v)"

primrec value_of :: "(string \<Rightarrow> double) \<Rightarrow> node \<Rightarrow> json" where
  "value_of num NNull = JNull"
| "value_of num (NBool b) = JBool b"
| "value_of num (NNumber w) = JNumber (num w)"
| "value_of num (NString s) = JString s"
| "value_of num (NArray xs) = JArray (map (value_of num) xs)"
| "value_of num (NObject ms) =
     JObject (foldl (\<lambda>acc (k, v). put_member acc k v) []
                (map (map_prod id (value_of num)) ms))"

definition JSON_parse :: "(string \<Rightarrow> double) \<Rightarrow> string \<Rightarrow> json option" where
  \<comment> \<open>\<open>JSON.parse(s)\<close> in an engine that converts number lexemes by \<open>num\<close>; \<open>None\<close>
      is the SyntaxError it throws\<close>
  "JSON_parse num s = map_option (value_of num) (JSON_tree s)"

fun field :: "json \<Rightarrow> string \<Rightarrow> json option" where
  \<comment> \<open>the property read \<open>v.k\<close> on a parsed value other than \<open>null\<close>, for a name \<open>k\<close>
      that no prototype defines (the field names of \<open>PlantInfo\<close> and
      \<open>CareInstructions\<close>); \<open>None\<close> is \<open>undefined\<close>\<close>
  "field (JObject ms) k = map_of ms (units k)"
| "field v k = None"

section \<open>Exceptions and host objects\<close>

text \<open>
  An asynchronous function of the services either resolves with a value or rejects with
  an exception: its result is a value of \<open>exn + 'a\<close>. What the browser, the on-device
  models and the cloud provider answer is not decided by the repository; it is read
  from a \<open>host\<close> record, and every theorem below holds for every host. Host promises
  are taken to settle, and \<open>console\<close> output is left out.
\<close>

datatype exn =
    Error string      \<comment> \<open>\<open>new Error(message)\<close>, thrown by the services themselves\<close>
  | SyntaxError       \<comment> \<open>thrown by \<open>JSON.parse\<close>\<close>
  | TypeError         \<comment> \<open>a property read on \<open>undefined\<close>\<close>
  | ReferenceError    \<comment> \<open>the global \<open>window\<close> is not declared\<close>
  | Rejected string   \<comment> \<open>a failure inside a host call (provider, transport, model)\<close>

record AILanguageModel =
  sid :: nat                             \<comment> \<open>the identity of the session object\<close>
  prompt :: "string \<Rightarrow> exn + string"      \<comment> \<open>what \<open>await session.prompt(input)\<close> gives\<close>
  destroy :: "nat \<Rightarrow> exn option"
    \<comment> \<open>what the call number \<open>n\<close> of \<open>session.destroy()\<close> throws, counted from 0;
        \<open>None\<close> when that call returns\<close>

text \<open>
  \<open>session.destroy\<close> has the declared type \<open>() => void\<close>. Like every call it returns
  or throws; each call is an event of the trace, whatever its outcome.
\<close>

datatype capabilities_result = Capabilities (available: string)

record LanguageModel =
  capabilities :: "exn + capabilities_result"
  create :: "string \<Rightarrow> exn + AILanguageModel"   \<comment> \<open>\<open>create({ systemPrompt })\<close>\<close>

datatype ai = AI (languageModel: "LanguageModel option")

datatype window = Window (ai: "ai option")

datatype role = User | Model

record ChatMessage =
  role :: role
  msg_text :: string      \<comment> \<open>the field \<open>text\<close>\<close>
  timestamp :: int

datatype schema =
    STRING
  | BOOLEAN
  | OBJECT (properties: "(string \<times> schema) list") (required: "string list")

datatype request =
  GenerateContentRequest
    (req_model: string)
    (req_data: "string option")     \<comment> \<open>\<open>inlineData.data\<close>; \<open>None\<close> is \<open>undefined\<close>\<close>
    (req_mimeType: string)
    (req_text: string)
    (req_responseMimeType: string)
    (req_responseSchema: schema)

text \<open>
  The system instruction of a chat is the persona sentence, followed, when a plant
  context is given, by a block rendered from that record; the rendering is not
  modelled and the record stands for the block.
\<close>

datatype chat_request =
  ChatRequest
    (chat_model: string)
    (chat_persona: string)
    (chat_context: "json option")
    (chat_history: "(role \<times> string) list")
    (chat_message: string)

datatype category = Category (categoryName: string)

record ImageClassifier =
  classify :: "string \<Rightarrow> exn + category list list"
    \<comment> \<open>\<open>classify(img).classifications\<close>, each with its \<open>categories\<close>; the image is
        named by its \<open>src\<close>\<close>

record File =
  name :: string
  type :: string
  bits :: string

record host =
  window :: "window option"                 \<comment> \<open>\<open>None\<close>: \<open>typeof window === 'undefined'\<close>\<close>
  API_KEY :: "string option"                \<comment> \<open>\<open>process.env.API_KEY\<close>\<close>
  generateContent :: "request \<Rightarrow> exn + string option"
    \<comment> \<open>\<open>(await ai.models.generateContent(...)).text\<close>\<close>
  sendMessage :: "chat_request \<Rightarrow> exn + string option"
    \<comment> \<open>\<open>(await ai.chats.create(...).sendMessage(...)).text\<close>\<close>
  imageClassifier :: "ImageClassifier option"
    \<comment> \<open>the module variable, \<open>null\<close> until \<open>initMediaPipe\<close> has loaded the model\<close>
  files :: "File option"                    \<comment> \<open>\<open>event.target.files?.[0]\<close>\<close>
  heic2any :: "File \<Rightarrow> exn + string"
    \<comment> \<open>the import of the converter and the conversion, giving the bytes of the first
        blob\<close>
  createObjectURL :: "File \<Rightarrow> string"
  readAsDataURL :: "File \<Rightarrow> exn + string"
  onload :: "string \<Rightarrow> bool"               \<comment> \<open>whether an image with that \<open>src\<close> loads\<close>
  Date_now :: "nat \<Rightarrow> int"                    \<comment> \<open>the readings of the clock, in order\<close>
  NumericValue :: "string \<Rightarrow> double"
    \<comment> \<open>the double the engine gives a number of a JSON text: its decimal value,
        rounded\<close>

datatype service =
  IdentifyPlant | IdentifyPlantLocal | SendChatMessage | ClassifyImageOffline

datatype event =
    Call service                \<comment> \<open>a service function is entered\<close>
  | Create string               \<comment> \<open>\<open>window.ai.languageModel.create\<close>, with the system prompt\<close>
  | Prompt nat string           \<comment> \<open>\<open>prompt\<close> on the session of that identity\<close>
  | Destroy nat                 \<comment> \<open>\<open>destroy\<close> on the session of that identity\<close>
  | GenerateContent request
  | ChatSend chat_request
  | Classify string
  | ReadFile File
  | LoadImage string

section \<open>geminiService\<close>

definition MODEL_NAME :: string where
  "MODEL_NAME = ''gemini-3-pro-preview''"

definition getAiClient :: "host \<Rightarrow> exn + unit" where
  "getAiClient h =
     (case API_KEY h of
        None \<Rightarrow> Inl (Error ''API_KEY is not defined in the environment'')
      | Some k \<Rightarrow>
          if k = [] then Inl (Error ''API_KEY is not defined in the environment'')
          else Inr ())"

definition identify_prompt :: string where
  \<open>identify_prompt =
     ''Identify this plant from the image. Provide detailed care instructions. \<newline>'' @
     ''  Return the result as a structured JSON object exactly matching the schema provided. \<newline>'' @
     ''  Ensure 'petFriendly' is a boolean indicating if it is safe for cats and dogs.''\<close>

definition responseSchema :: schema where
  \<comment> \<open>the \<open>responseSchema\<close> of the request of \<open>identifyPlant\<close>\<close>
  "responseSchema =
     OBJECT
       [(''commonName'', STRING),
        (''scientificName'', STRING),
        (''description'', STRING),
        (''petFriendly'', BOOLEAN),
        (''funFact'', STRING),
        (''careInstructions'',
         OBJECT
           [(''water'', STRING),
            (''light'', STRING),
            (''soil'', STRING),
            (''humidity'', STRING),
            (''temperature'', STRING)]
           [''water'', ''light'', ''soil'', ''humidity'', ''temperature''])]
       [''commonName'', ''scientificName'', ''description'', ''careInstructions'',
        ''petFriendly'', ''funFact'']"

definition identifyPlant :: "host \<Rightarrow> string option \<Rightarrow> string \<Rightarrow> (exn + json) \<times> event list" where
  \<comment> \<open>\<open>base64Image\<close> is \<open>None\<close> when the caller passes \<open>undefined\<close>\<close>
  "identifyPlant h base64Image mimeType =
     (case getAiClient h of
        Inl e \<Rightarrow> (Inl e, [Call IdentifyPlant])
      | Inr _ \<Rightarrow>
          (let req = GenerateContentRequest MODEL_NAME base64Image mimeType identify_prompt
                       ''application/json'' responseSchema;
               tr = [Call IdentifyPlant, GenerateContent req]
           in case generateContent h req of
                Inl e \<Rightarrow> (Inl e, tr)
              | Inr None \<Rightarrow> (Inl (Error ''No response text from API''), tr)
              | Inr (Some t) \<Rightarrow>
                  if t = [] then (Inl (Error ''No response text from API''), tr)
                  else (case JSON_parse (NumericValue h) t of
                          None \<Rightarrow> (Inl SyntaxError, tr)
                        | Some data \<Rightarrow> (Inr data, tr))))"

definition queryCapabilities :: "ai \<Rightarrow> exn + bool" where
  \<comment> \<open>the \<open>try\<close> block of \<open>checkLocalAICapability\<close>\<close>
  "queryCapabilities a =
     (case languageModel a of
        None \<Rightarrow> Inl TypeError
      | Some lm \<Rightarrow>
          (case capabilities lm of
             Inl e \<Rightarrow> Inl e
           | Inr c \<Rightarrow> Inr (available c = ''readily'')))"

definition checkLocalAICapability :: "host \<Rightarrow> exn + bool" where
  "checkLocalAICapability h =
     (case window h of
        None \<Rightarrow> Inr False
      | Some w \<Rightarrow>
          (case ai w of
             None \<Rightarrow> Inr False
           | Some a \<Rightarrow>
               (case queryCapabilities a of
                  Inl e \<Rightarrow> Inr False
                | Inr b \<Rightarrow> Inr b)))"

definition local_systemPrompt :: string where
  "local_systemPrompt =
     ''You are a botanist. You receive a list of possible plant image labels. Identify the most likely plant and generate a detailed JSON response.''"

definition local_prompt :: "string \<Rightarrow> string" where
  \<open>local_prompt labelsStr =
     ''The image classifier detected these objects: "'' @ labelsStr @
     ''". \<newline>'' @
     ''  Based on this, assume the most likely plant.\<newline>'' @
     ''  Provide a strictly valid JSON object with the following fields:\<newline>'' @
     ''  {\<newline>'' @
     ''    "commonName": "string",\<newline>'' @
     ''    "scientificName": "string",\<newline>'' @
     ''    "description": "short description",\<newline>'' @
     ''    "petFriendly": boolean,\<newline>'' @
     ''    "funFact": "string",\<newline>'' @
     ''    "careInstructions": {\<newline>'' @
     ''      "water": "string",\<newline>'' @
     ''      "light": "string",\<newline>'' @
     ''      "soil": "string",\<newline>'' @
     ''      "humidity": "string",\<newline>'' @
     ''      "temperature": "string"\<newline>'' @
     ''    }\<newline>'' @
     ''  }\<newline>'' @
     ''  Do not include markdown formatting. Return only the JSON.''\<close>

definition strip_fences :: "string \<Rightarrow> string" where
  \<comment> \<open>\<open>result.replace(/```json/g, '').replace(/```/g, '').trim()\<close>\<close>
  "strip_fences result = trim (replace_g ''```'' [] (replace_g ''```json'' [] result))"

definition generate_local :: "host \<Rightarrow> AILanguageModel \<Rightarrow> string \<Rightarrow> exn + json" where
  \<comment> \<open>the \<open>try\<close> block of \<open>identifyPlantLocal\<close>, up to the parsed \<open>data\<close>\<close>
  "generate_local h session p =
     (case prompt session p of
        Inl e \<Rightarrow> Inl e
      | Inr result \<Rightarrow>
          (case JSON_parse (NumericValue h) (strip_fences result) of
             None \<Rightarrow> Inl SyntaxError
           | Some data \<Rightarrow> Inr data))"

definition generation_failed :: "AILanguageModel \<Rightarrow> nat \<Rightarrow> exn" where
  \<comment> \<open>the \<open>catch\<close> block of \<open>identifyPlantLocal\<close>, entered when \<open>destroy\<close> has been
      called \<open>n\<close> times: it calls \<open>destroy\<close> and throws the error of the service, or
      what that call of \<open>destroy\<close> throws\<close>
  "generation_failed session n =
     (case destroy session n of
        None \<Rightarrow> Error ''Could not generate plant details offline.''
      | Some e \<Rightarrow> e)"

definition identifyPlantLocal :: "host \<Rightarrow> string list \<Rightarrow> (exn + json) \<times> event list" where
  "identifyPlantLocal h detectedLabels =
     (case window h of
        None \<Rightarrow> (Inl ReferenceError, [Call IdentifyPlantLocal])
      | Some w \<Rightarrow>
          (case ai w of
             None \<Rightarrow>
               (Inl (Error ''Local AI is required for offline mode to generate plant details.''),
                [Call IdentifyPlantLocal])
           | Some a \<Rightarrow>
               (case languageModel a of
                  None \<Rightarrow> (Inl TypeError, [Call IdentifyPlantLocal])
                | Some lm \<Rightarrow>
                    (case create lm local_systemPrompt of
                       Inl e \<Rightarrow> (Inl e, [Call IdentifyPlantLocal, Create local_systemPrompt])
                     | Inr session \<Rightarrow>
                         (let p = local_prompt (join detectedLabels '', '');
                              tr = [Call IdentifyPlantLocal, Create local_systemPrompt,
                                    Prompt (sid session) p, Destroy (sid session)]
                          in case generate_local h session p of
                               Inr data \<Rightarrow>
                                 (case destroy session 0 of
                                    None \<Rightarrow> (Inr data, tr)
                                  | Some e \<Rightarrow>
                                      (Inl (generation_failed session 1),
                                       tr @ [Destroy (sid session)]))
                             | Inl e \<Rightarrow> (Inl (generation_failed session 0), tr))))))"

definition persona :: string where
  "persona = ''You are FloraLens, an expert botanist and gardening assistant. You are helpful, friendly, and concise.''"

definition sendChatMessage ::
  "host \<Rightarrow> ChatMessage list \<Rightarrow> string \<Rightarrow> json option \<Rightarrow> (exn + string) \<times> event list" where
  "sendChatMessage h history newMessage context =
     (case getAiClient h of
        Inl e \<Rightarrow> (Inl e, [Call SendChatMessage])
      | Inr _ \<Rightarrow>
          (let req = ChatRequest MODEL_NAME persona context
                       (map (\<lambda>msg. (role msg, msg_text msg)) history) newMessage;
               tr = [Call SendChatMessage, ChatSend req]
           in case sendMessage h req of
                Inl e \<Rightarrow> (Inl e, tr)
              | Inr None \<Rightarrow> (Inr ''I'm sorry, I couldn't generate a response.'', tr)
              | Inr (Some t) \<Rightarrow>
                  if t = [] then (Inr ''I'm sorry, I couldn't generate a response.'', tr)
                  else (Inr t, tr)))"

section \<open>mediaPipeService\<close>

definition classifyImageOffline :: "host \<Rightarrow> string \<Rightarrow> (exn + string list) \<times> event list" where
  "classifyImageOffline h img =
     (case imageClassifier h of
        None \<Rightarrow> (Inl (Error ''Offline recognition model not loaded yet''), [Call ClassifyImageOffline])
      | Some c \<Rightarrow>
          (let tr = [Call ClassifyImageOffline, Classify img]
           in case classify c img of
                Inl e \<Rightarrow> (Inl e, tr)
              | Inr [] \<Rightarrow> (Inr [], tr)
              | Inr (first # rest) \<Rightarrow>
                  if first \<noteq> [] then (Inr (map categoryName first), tr) else (Inr [], tr)))"

section \<open>PlantCard\<close>

definition PlantCard_care :: "json \<Rightarrow> exn + json option list" where
  \<comment> \<open>what the render of \<open>PlantCard\<close> reads for its care items, in the order of the
      render: \<open>info.careInstructions.water\<close>, \<open>.light\<close>, \<open>.soil\<close>, \<open>.temperature\<close>,
      \<open>.humidity\<close>. The first read throws a TypeError when \<open>info.careInstructions\<close> is
      \<open>undefined\<close> or \<open>null\<close>.\<close>
  "PlantCard_care info =
     (case field info ''careInstructions'' of
        None \<Rightarrow> Inl TypeError
      | Some JNull \<Rightarrow> Inl TypeError
      | Some c \<Rightarrow>
          Inr (map (field c) [''water'', ''light'', ''soil'', ''temperature'', ''humidity'']))"

section \<open>ChatBot\<close>

record ChatBot =
  history :: "ChatMessage list"
  input :: string
  isLoading :: bool
  isLocalAI :: bool
  localSession :: "AILanguageModel option"

text \<open>
  The component state. The properties \<open>plantContext\<close> and \<open>isOnline\<close> are arguments of
  \<open>handleSend\<close>. \<open>respond\<close> is the part of the \<open>try\<close> block that computes
  \<open>responseText\<close>; the history it hands to the cloud is the one of the render, without
  the message being sent.
\<close>

definition respond ::
  "json option \<Rightarrow> bool \<Rightarrow> host \<Rightarrow> ChatBot \<Rightarrow> (exn + string) \<times> event list" where
  "respond plantContext isOnline h st =
     (case (if isLocalAI st then localSession st else None) of
        Some s \<Rightarrow>
          (case prompt s (input st) of
             Inr r \<Rightarrow> (Inr r, [Prompt (sid s) (input st)])
           | Inl e \<Rightarrow>
               if isOnline
               then (let (r, tr) = sendChatMessage h (history st) (input st) plantContext
                     in (r, Prompt (sid s) (input st) # tr))
               else (Inr ''I'm having trouble processing that offline. Please reconnect to the internet.'',
                     [Prompt (sid s) (input st)]))
      | None \<Rightarrow>
          if isOnline then sendChatMessage h (history st) (input st) plantContext
          else (Inr ''I cannot connect to the cloud right now. Please check your internet connection.'', []))"

definition handleSend ::
  "json option \<Rightarrow> bool \<Rightarrow> host \<Rightarrow> ChatBot \<Rightarrow> (exn + unit) \<times> ChatBot \<times> event list" where
  "handleSend plantContext isOnline h st =
     (if trim (input st) = [] \<or> isLoading st then (Inr (), st, [])
      else if \<not> isOnline \<and> \<not> isLocalAI st then (Inr (), st, [])
      else
        (let userMsg = \<lparr>role = User, msg_text = input st, timestamp = Date_now h 0\<rparr>;
             st1 = st\<lparr>history := history st @ [userMsg], input := [], isLoading := True\<rparr>;
             (r, tr) = respond plantContext isOnline h st
         in case r of
              Inr responseText \<Rightarrow>
                (let modelMsg = \<lparr>role = Model, msg_text = responseText, timestamp = Date_now h 1\<rparr>
                 in (Inr (), st1\<lparr>history := history st1 @ [modelMsg], isLoading := False\<rparr>, tr))
            | Inl e \<Rightarrow>
                (Inr (),
                 st1\<lparr>history := history st1 @
                        [\<lparr>role = Model,
                          msg_text = ''Sorry, I seem to have lost my connection to the garden. Please try again shortly.'',
                          timestamp = Date_now h 1\<rparr>],
                     isLoading := False\<rparr>,
                 tr)))"

section \<open>App\<close>

datatype AppView = ANALYZE | CHAT

record App =
  view :: AppView
  plantData :: "json option"
  selectedImage :: "string option"
  isAnalyzing :: bool
  error :: "string option"
  isOfflineAnalysis :: bool

text \<open>
  \<open>isOnline\<close> is state of \<open>App\<close> that only the listeners of the \<open>online\<close> and
  \<open>offline\<close> events write; \<open>handleFileSelect\<close> reads it, so it is an argument.
\<close>

definition toLowerCase :: "string \<Rightarrow> string" where
  \<comment> \<open>on the alphabet 0x00 to 0xFF: A to Z, and 0xC0 to 0xDE without 0xD7\<close>
  "toLowerCase s =
     map (\<lambda>c. let n = (of_char c :: nat)
              in if (65 \<le> n \<and> n \<le> 90) \<or> (192 \<le> n \<and> n \<le> 222 \<and> n \<noteq> 215)
                 then char_of (n + 32) else c) s"

definition endsWith :: "string \<Rightarrow> string \<Rightarrow> bool" where
  \<comment> \<open>\<open>endsWith p s\<close>: the text \<open>s\<close> ends with \<open>p\<close>\<close>
  "endsWith p s = startsWith (rev p) (rev s)"

fun split_on :: "char \<Rightarrow> string \<Rightarrow> string list" where
  \<comment> \<open>\<open>s.split(sep)\<close> for a separator of one character\<close>
  "split_on sep [] = [[]]"
| "split_on sep (c # cs) =
     (if c = sep then [] # split_on sep cs
      else (case split_on sep cs of
              [] \<Rightarrow> [[c]]
            | x # xs \<Rightarrow> (c # x) # xs))"

definition nth_opt :: "'a list \<Rightarrow> nat \<Rightarrow> 'a option" where
  \<comment> \<open>\<open>xs[i]\<close>, with \<open>None\<close> for \<open>undefined\<close>\<close>
  "nth_opt xs i = (if i < length xs then Some (xs ! i) else None)"

definition is_heic :: "File \<Rightarrow> bool" where
  "is_heic file \<longleftrightarrow>
     type file = ''image/heic'' \<or> endsWith ''.heic'' (toLowerCase (name file))
     \<or> type file = ''image/heif''"

definition jpg_name :: "string \<Rightarrow> string" where
  \<comment> \<open>\<open>file.name.replace(/\.heic$/i, ".jpg")\<close>\<close>
  "jpg_name n =
     (if endsWith ''.heic'' (toLowerCase n) then take (length n - 5) n @ ''.jpg'' else n)"

datatype 'a outcome =
    Returned 'a
  | Threw exn
  | Pending     \<comment> \<open>an awaited promise is never settled\<close>

text \<open>
  \<open>identification_request\<close> is the \<open>try\<close> block of \<open>handleFileSelect\<close>, up to the
  value \<open>data\<close>. The promise that waits for the image has no reject path: when the
  image does not load, the request stays pending.
\<close>

definition identification_request ::
  "bool \<Rightarrow> host \<Rightarrow> File \<Rightarrow> string \<Rightarrow> json outcome \<times> event list" where
  "identification_request isOnline h processFile objectUrl =
     (if isOnline then
        (case readAsDataURL h processFile of
           Inl e \<Rightarrow> (Threw e, [ReadFile processFile])
         | Inr base64Data \<Rightarrow>
             (let base64Content = nth_opt (split_on (CHR '','') base64Data) 1;
                  mimeType = type processFile;
                  (r, tr) = identifyPlant h base64Content mimeType
              in (case r of Inl e \<Rightarrow> Threw e | Inr data \<Rightarrow> Returned data,
                  ReadFile processFile # tr)))
      else if \<not> onload h objectUrl then (Pending, [LoadImage objectUrl])
      else
        (case classifyImageOffline h objectUrl of
           (Inl e, tr) \<Rightarrow> (Threw e, LoadImage objectUrl # tr)
         | (Inr labels, tr) \<Rightarrow>
             if length labels = 0
             then (Threw (Error ''Could not identify object in offline mode.''),
                   LoadImage objectUrl # tr)
             else (let (r, tr') = identifyPlantLocal h labels
                   in (case r of Inl e \<Rightarrow> Threw e | Inr data \<Rightarrow> Returned data,
                       LoadImage objectUrl # tr @ tr'))))"

definition process_file :: "host \<Rightarrow> File \<Rightarrow> File option" where
  \<comment> \<open>the HEIC conversion of \<open>handleFileSelect\<close>; \<open>None\<close> when the conversion throws\<close>
  "process_file h file =
     (if is_heic file
      then (case heic2any h file of
              Inl e \<Rightarrow> None
            | Inr blob \<Rightarrow> Some \<lparr>name = jpg_name (name file), type = ''image/jpeg'', bits = blob\<rparr>)
      else Some file)"

definition handleFileSelect :: "bool \<Rightarrow> host \<Rightarrow> App \<Rightarrow> unit outcome \<times> App \<times> event list" where
  "handleFileSelect isOnline h st =
     (case files h of
        None \<Rightarrow> (Returned (), st, [])
      | Some file \<Rightarrow>
          (let st1 = st\<lparr>error := None, plantData := None, selectedImage := None,
                        isAnalyzing := True, isOfflineAnalysis := False\<rparr>
           in case process_file h file of
                None \<Rightarrow>
                  (Returned (),
                   st1\<lparr>error := Some ''Could not process HEIC image. Please try a JPEG or PNG.'',
                       isAnalyzing := False\<rparr>,
                   [])
              | Some processFile \<Rightarrow>
                  (let objectUrl = createObjectURL h processFile;
                       st2 = st1\<lparr>selectedImage := Some objectUrl\<rparr>;
                       st3 = (if isOnline then st2 else st2\<lparr>isOfflineAnalysis := True\<rparr>);
                       (r, tr) = identification_request isOnline h processFile objectUrl
                   in case r of
                        Returned data \<Rightarrow>
                          (Returned (), st3\<lparr>plantData := Some data, isAnalyzing := False\<rparr>, tr)
                      | Threw e \<Rightarrow>
                          (Returned (),
                           st3\<lparr>error := Some
                                 (if isOnline
                                  then ''Failed to identify the plant. Please try another clear photo.''
                                  else ''Offline identification failed. Try a clearer photo or reconnect to internet.''),
                               isAnalyzing := False\<rparr>,
                           tr)
                      | Pending \<Rightarrow> (Pending, st3, tr))))"

definition selected :: "host \<Rightarrow> (File \<times> string) option" where
  \<comment> \<open>the file an identification request is made for, with its object URL: the file of
      the event after the HEIC conversion; \<open>None\<close> when \<open>handleFileSelect\<close> returns
      before its \<open>try\<close> block\<close>
  "selected h =
     (case files h of
        None \<Rightarrow> None
      | Some file \<Rightarrow>
          (case process_file h file of
             None \<Rightarrow> None
           | Some processFile \<Rightarrow> Some (processFile, createObjectURL h processFile)))"

section \<open>Properties of results and traces\<close>

definition NoObjectDetectedError :: exn where
  \<comment> \<open>the error \<open>handleFileSelect\<close> throws when the classifier names nothing\<close>
  "NoObjectDetectedError = Error ''Could not identify object in offline mode.''"

fun local_model_event :: "event \<Rightarrow> bool" where
  \<comment> \<open>the local language model is asked for a session or a completion\<close>
  "local_model_event (Call IdentifyPlantLocal) = True"
| "local_model_event (Create p) = True"
| "local_model_event (Prompt i p) = True"
| "local_model_event e = False"

fun cloud_event :: "event \<Rightarrow> bool" where
  \<comment> \<open>the events of the cloud strategies\<close>
  "cloud_event (Call IdentifyPlant) = True"
| "cloud_event (Call SendChatMessage) = True"
| "cloud_event (GenerateContent r) = True"
| "cloud_event (ChatSend r) = True"
| "cloud_event (ReadFile f) = True"
| "cloud_event e = False"

fun offline_event :: "event \<Rightarrow> bool" where
  \<comment> \<open>the events of the classifier and of the local language model\<close>
  "offline_event (Call ClassifyImageOffline) = True"
| "offline_event (Call IdentifyPlantLocal) = True"
| "offline_event (Classify i) = True"
| "offline_event (LoadImage i) = True"
| "offline_event (Create p) = True"
| "offline_event (Prompt i p) = True"
| "offline_event (Destroy i) = True"
| "offline_event e = False"

definition present :: "json \<Rightarrow> string \<Rightarrow> bool" where
  \<comment> \<open>the property is there and is not \<open>null\<close>\<close>
  "present v k = (case field v k of None \<Rightarrow> False | Some JNull \<Rightarrow> False | Some x \<Rightarrow> True)"

definition all_fields_present :: "json \<Rightarrow> bool" where
  \<comment> \<open>the six fields of \<open>PlantInfo\<close> and the five of \<open>CareInstructions\<close> (types.ts)\<close>
  "all_fields_present v \<longleftrightarrow>
     list_all (present v)
       [''commonName'', ''scientificName'', ''description'', ''careInstructions'',
        ''petFriendly'', ''funFact'']
     \<and> (case field v ''careInstructions'' of
          None \<Rightarrow> False
        | Some c \<Rightarrow> list_all (present c) [''water'', ''light'', ''soil'', ''humidity'', ''temperature''])"

definition offline_unavailable :: string where
  "offline_unavailable =
     ''I cannot connect to the cloud right now. Please check your internet connection.''"

definition lost_connection :: string where
  "lost_connection =
     ''Sorry, I seem to have lost my connection to the garden. Please try again shortly.''"

definition appended :: "host \<Rightarrow> ChatBot \<Rightarrow> string \<Rightarrow> ChatBot" where
  \<comment> \<open>the state after a send that was answered by \<open>reply\<close>: the user turn and one
      assistant turn are appended\<close>
  "appended h st reply =
     st\<lparr>history := history st @
           [\<lparr>role = User, msg_text = input st, timestamp = Date_now h 0\<rparr>,
            \<lparr>role = Model, msg_text = reply, timestamp = Date_now h 1\<rparr>],
        input := [], isLoading := False\<rparr>"

section \<open>Example hosts and states\<close>

definition file0 :: File where
  "file0 = \<lparr>name = ''rose.jpg'', type = ''image/jpeg'', bits = []\<rparr>"

definition app0 :: App where
  \<comment> \<open>the state of \<open>App\<close> before a photo is chosen\<close>
  "app0 =
     \<lparr>view = ANALYZE, plantData = None, selectedImage = None, isAnalyzing = False,
      error = None, isOfflineAnalysis = False\<rparr>"

definition numbers0 :: "string \<Rightarrow> double" where
  \<comment> \<open>the doubles of the numbers that occur in the examples: 1 and 2500\<close>
  "numbers0 w =
     (if w = ''1'' then 0x3FF0000000000000
      else if w = ''2.5e3'' then 0x40A3880000000000
      else 0)"

definition host0 :: host where
  \<comment> \<open>no local model, no API key, no classifier, a network that fails\<close>
  "host0 =
     \<lparr>window = None,
      API_KEY = None,
      generateContent = (\<lambda>req. Inl (Rejected ''network'')),
      sendMessage = (\<lambda>req. Inl (Rejected ''network'')),
      imageClassifier = None,
      files = Some file0,
      heic2any = (\<lambda>f. Inl (Rejected ''heic'')),
      createObjectURL = (\<lambda>f. ''blob:1''),
      readAsDataURL = (\<lambda>f. Inr ''data:image/jpeg;base64,AAAA''),
      onload = (\<lambda>src. True),
      Date_now = (\<lambda>n. 1000 + int n),
      NumericValue = numbers0\<rparr>"

definition session0 :: "(string \<Rightarrow> exn + string) \<Rightarrow> AILanguageModel" where
  \<comment> \<open>a session that answers by \<open>f\<close> and whose \<open>destroy\<close> returns\<close>
  "session0 f = \<lparr>sid = 7, prompt = f, destroy = (\<lambda>n. None)\<rparr>"

definition nano :: "string \<Rightarrow> (string \<Rightarrow> exn + string) \<Rightarrow> window" where
  \<comment> \<open>a window whose local model reports the tier and whose sessions answer by \<open>f\<close>\<close>
  "nano tier f =
     Window (Some (AI (Some \<lparr>capabilities = Inr (Capabilities tier),
                              create = (\<lambda>p. Inr (session0 f))\<rparr>)))"

definition host_blank :: host where
  \<comment> \<open>the classifier is loaded and finds no category\<close>
  "host_blank = host0\<lparr>imageClassifier := Some \<lparr>classify = (\<lambda>img. Inr [])\<rparr>\<rparr>"

definition host_rose :: "(string \<Rightarrow> exn + string) \<Rightarrow> host" where
  \<comment> \<open>the classifier names three labels and the local model answers by \<open>f\<close>\<close>
  "host_rose f =
     host0\<lparr>window := Some (nano ''readily'' f),
           imageClassifier :=
             Some \<lparr>classify =
                     (\<lambda>img. Inr [[Category ''rose'', Category ''flower'', Category ''plant'']])\<rparr>\<rparr>"

definition host_stuck :: "(string \<Rightarrow> exn + string) \<Rightarrow> host" where
  \<comment> \<open>as \<open>host_rose\<close>, with a session whose first call of \<open>destroy\<close> throws\<close>
  "host_stuck f =
     (host_rose f)
       \<lparr>window :=
          Some (Window (Some (AI (Some
            \<lparr>capabilities = Inr (Capabilities ''readily''),
             create =
               (\<lambda>p. Inr \<lparr>sid = 7, prompt = f,
                            destroy = (\<lambda>n. if n = 0 then Some (Rejected ''destroy'') else None)\<rparr>)\<rparr>))))\<rparr>"

definition host_cloud :: host where
  \<comment> \<open>an API key is set and the cloud chat answers\<close>
  "host_cloud =
     host0\<lparr>API_KEY := Some ''key'', sendMessage := (\<lambda>req. Inr (Some ''Yes, it is.''))\<rparr>"

definition labels0 :: "string list" where
  "labels0 = [''rose'', ''flower'', ''plant'']"

definition chat0 :: ChatBot where
  \<comment> \<open>a conversation after the greeting, with a question typed; no local model\<close>
  "chat0 =
     \<lparr>history =
        [\<lparr>role = Model,
          msg_text = ''Hello! I'm your personal gardening expert. Ask me anything about plants, pests, or garden planning!'',
          timestamp = 900\<rparr>],
      input = ''Is it safe for cats?'',
      isLoading = False,
      isLocalAI = False,
      localSession = None\<rparr>"

definition chat_flag :: ChatBot where
  \<comment> \<open>the capability flag is set and the session is not there yet\<close>
  "chat_flag = chat0\<lparr>isLocalAI := True\<rparr>"

definition chat_local :: "(string \<Rightarrow> exn + string) \<Rightarrow> ChatBot" where
  \<comment> \<open>a live local session that answers by \<open>f\<close>\<close>
  "chat_local f = chat0\<lparr>isLocalAI := True, localSession := Some (session0 f)\<rparr>"

definition care0 :: json where
  \<comment> \<open>the temperature holds an en dash, the code unit 0x2013\<close>
  "care0 =
     JObject [(units ''water'', JString (units ''Weekly'')),
              (units ''light'', JString (units ''Full sun'')),
              (units ''soil'', JString (units ''Loam'')),
              (units ''humidity'', JString (units ''Moderate'')),
              (units ''temperature'', JString (units ''18'' @ [0x2013] @ units ''24 C''))]"

definition plant_record :: "string \<Rightarrow> json" where
  \<comment> \<open>a complete record of a rose with the given description\<close>
  "plant_record d =
     JObject [(units ''commonName'', JString (units ''Rose'')),
              (units ''scientificName'', JString (units ''Rosa'')),
              (units ''description'', JString (units d)),
              (units ''petFriendly'', JBool True),
              (units ''funFact'', JString (units ''Roses are old.'')),
              (units ''careInstructions'', care0)]"

definition plant_text :: "string \<Rightarrow> string" where
  \<comment> \<open>the JSON text of \<open>plant_record d\<close>, for a description without escapes, between
      two line breaks; the en dash is written as the escape \<open>\u2013\<close>\<close>
  \<open>plant_text d =
     ''\<newline>{"commonName": "Rose", "scientificName": "Rosa", "description": "'' @ d @
     ''", "petFriendly": true, "funFact": "Roses are old.", '' @
     ''"careInstructions": {"water": "Weekly", "light": "Full sun", "soil": "Loam", '' @
     ''"humidity": "Moderate", "temperature": "18'' @ [CHR 0x5C] @ ''u201324 C"}}\<newline>''\<close>

definition woody :: string where
  "woody = ''A woody perennial.''"

definition shears :: string where
  "shears = ''Prune with ```sharp``` shears.''"

definition twice_text :: string where
  \<comment> \<open>a text with numbers and with a name that is repeated\<close>
  \<open>twice_text = ''{"a": 1, "b": [2.5e3, null], "a": "z"}''\<close>

section \<open>Evaluations and traces of the services\<close>

lemma trim_input0: "trim ''Is it safe for cats?'' = ''Is it safe for cats?''"
  by code_simp

lemma is_heic_file0: "\<not> is_heic file0"
  by code_simp

lemma JSON_parse_sorry: "JSON_parse num (strip_fences ''Sorry, I cannot.'') = None"
  by code_simp

lemma JSON_parse_strip_braces: "JSON_parse num (strip_fences ''{}'') = Some (JObject [])"
  by code_simp

lemma JSON_parse_repeated_name:
  "JSON_parse numbers0 twice_text =
     Some (JObject [(units ''a'', JString (units ''z'')),
                    (units ''b'', JArray [JNumber 0x40A3880000000000, JNull])])"
  by code_simp

lemma identifyPlant_trace:
  "filter offline_event (snd (identifyPlant h b m)) = []"
  "Call IdentifyPlant \<in> set (snd (identifyPlant h b m))"
  by (auto simp: identifyPlant_def Let_def split: sum.splits option.splits)

lemma classifyImageOffline_trace:
  "filter cloud_event (snd (classifyImageOffline h i)) = []"
  "filter local_model_event (snd (classifyImageOffline h i)) = []"
  "Call ClassifyImageOffline \<in> set (snd (classifyImageOffline h i))"
  by (auto simp: classifyImageOffline_def Let_def split: sum.splits option.splits list.splits)

lemma identifyPlantLocal_trace:
  "filter cloud_event (snd (identifyPlantLocal h ls)) = []"
  "Call IdentifyPlantLocal \<in> set (snd (identifyPlantLocal h ls))"
  by (auto simp: identifyPlantLocal_def Let_def split: sum.splits option.splits)

lemma identifyPlant_request:
  "GenerateContent r \<in> set (snd (identifyPlant h b m)) \<Longrightarrow>
     req_responseMimeType r = ''application/json'' \<and> req_responseSchema r = responseSchema"
  by (auto simp: identifyPlant_def Let_def split: sum.splits option.splits if_splits)

lemma responseSchema_required:
  "required responseSchema =
     [''commonName'', ''scientificName'', ''description'', ''careInstructions'',
      ''petFriendly'', ''funFact'']"
  "map_option required (map_of (properties responseSchema) ''careInstructions'') =
     Some [''water'', ''light'', ''soil'', ''humidity'', ''temperature'']"
  by (simp_all add: responseSchema_def)

lemma sendChatMessage_calls:
  "filter ((=) (Call SendChatMessage)) (snd (sendChatMessage h hist m ctx)) = [Call SendChatMessage]"
  by (auto simp: sendChatMessage_def Let_def split: sum.splits option.splits)

lemma parse_woody: "JSON_parse num (plant_text woody) = Some (plant_record woody)"
  by code_simp

lemma woody_no_fence: "\<not> occurs ''```'' (plant_text woody)"
  by code_simp

lemma parse_shears: "JSON_parse num (plant_text shears) = Some (plant_record shears)"
  by code_simp

lemma parse_fenced_shears:
  "JSON_parse num (strip_fences (''```json'' @ plant_text shears @ ''```''))
     = Some (plant_record ''Prune with sharp shears.'')"
  by code_simp

lemma shears_differ: "plant_record ''Prune with sharp shears.'' \<noteq> plant_record shears"
  by code_simp

lemma PlantCard_care_empty: "PlantCard_care (JObject []) = Inl TypeError"
  by code_simp

lemma empty_record_incomplete: "\<not> all_fields_present (JObject [])"
  by code_simp

lemma complete_shears: "all_fields_present (plant_record shears)"
  by code_simp

section \<open>The bound of the parser\<close>

text \<open>
  More fuel never changes a result of the parser, and a parse that succeeds with some
  fuel succeeds with twice the number of the tokens it consumes: the bound in
  \<open>JSON_tree\<close> is never the reason of a failure.
\<close>

lemma value_start_length:
  "value_start ts = Scalar v r \<Longrightarrow> length r < length ts"
  "value_start ts = OpenArray r \<Longrightarrow> length ts = Suc (length r)"
  "value_start ts = OpenObject r \<Longrightarrow> length ts = Suc (length r)"
  by (induction ts rule: value_start.induct; simp)+

lemma follow_length:
  "element_follow ts = More r \<Longrightarrow> length ts = Suc (length r)"
  "element_follow ts = Close r \<Longrightarrow> length ts = Suc (length r)"
  "member_follow ts = More r \<Longrightarrow> length ts = Suc (length r)"
  "member_follow ts = Close r \<Longrightarrow> length ts = Suc (length r)"
  by (induction ts rule: element_follow.induct; simp)+

lemma member_key_length: "member_key ts = Some (k, r) \<Longrightarrow> length ts = Suc (Suc (length r))"
  by (induction ts rule: member_key.induct) simp_all

lemma parse_Suc:
  "(\<forall>ts x. parse_value n ts = Some x \<longrightarrow> parse_value (Suc n) ts = Some x)
   \<and> (\<forall>acc ts x. parse_elements n acc ts = Some x \<longrightarrow> parse_elements (Suc n) acc ts = Some x)
   \<and> (\<forall>acc ts x. parse_members n acc ts = Some x \<longrightarrow> parse_members (Suc n) acc ts = Some x)"
proof (induction n)
  case 0
  then show ?case by simp
next
  case (Suc n)
  have v: "parse_value (Suc (Suc n)) ts = Some x" if "parse_value (Suc n) ts = Some x" for ts x
  proof (cases "value_start ts")
    case (Scalar v r)
    with that show ?thesis by simp
  next
    case (OpenArray r)
    with that have "parse_elements n [] r = Some x" by simp
    with Suc.IH have "parse_elements (Suc n) [] r = Some x" by blast
    with OpenArray show ?thesis by (simp del: parse_elements.simps)
  next
    case (OpenObject r)
    with that have "parse_members n [] r = Some x" by simp
    with Suc.IH have "parse_members (Suc n) [] r = Some x" by blast
    with OpenObject show ?thesis by (simp del: parse_members.simps)
  next
    case NoValue
    with that show ?thesis by simp
  qed
  have e: "parse_elements (Suc (Suc n)) acc ts = Some x" if "parse_elements (Suc n) acc ts = Some x" for acc ts x
  proof -
    from that obtain v r where p: "parse_value n ts = Some (v, r)"
      by (auto split: option.splits)
    with Suc.IH have p': "parse_value (Suc n) ts = Some (v, r)" by blast
    show ?thesis
    proof (cases "element_follow r")
      case (More r')
      with that p have "parse_elements n (acc @ [v]) r' = Some x" by simp
      with Suc.IH have "parse_elements (Suc n) (acc @ [v]) r' = Some x" by blast
      with More p' show ?thesis by (simp del: parse_value.simps parse_elements.simps add: parse_elements.simps(2) [of "Suc n"])
    next
      case (Close r')
      with that p p' show ?thesis by (simp del: parse_value.simps parse_elements.simps add: parse_elements.simps(2) [of "Suc n"] parse_elements.simps(2) [of n])
    next
      case Stop
      with that p show ?thesis by simp
    qed
  qed
  have m: "parse_members (Suc (Suc n)) acc ts = Some x" if "parse_members (Suc n) acc ts = Some x" for acc ts x
  proof -
    from that obtain k r where k: "member_key ts = Some (k, r)"
      by (auto split: option.splits)
    with that obtain v r1 where p: "parse_value n r = Some (v, r1)"
      by (auto split: option.splits)
    with Suc.IH have p': "parse_value (Suc n) r = Some (v, r1)" by blast
    show ?thesis
    proof (cases "member_follow r1")
      case (More r')
      with that k p have "parse_members n (acc @ [(k, v)]) r' = Some x" by simp
      with Suc.IH have "parse_members (Suc n) (acc @ [(k, v)]) r' = Some x" by blast
      with More k p' show ?thesis by (simp del: parse_value.simps parse_members.simps add: parse_members.simps(2) [of "Suc n"])
    next
      case (Close r')
      with that k p p' show ?thesis by (simp del: parse_value.simps parse_members.simps add: parse_members.simps(2) [of "Suc n"] parse_members.simps(2) [of n])
    next
      case Stop
      with that k p show ?thesis by simp
    qed
  qed
  from v e m show ?case by blast
qed

lemma parse_Suc_rules:
  "parse_value n ts = Some x \<Longrightarrow> parse_value (Suc n) ts = Some x"
  "parse_elements n acc ts = Some x \<Longrightarrow> parse_elements (Suc n) acc ts = Some x"
  "parse_members n acc' ts = Some x \<Longrightarrow> parse_members (Suc n) acc' ts = Some x"
  using parse_Suc [of n] by blast+

lemma parse_mono:
  assumes "n \<le> m"
  shows "parse_value n ts = Some x \<Longrightarrow> parse_value m ts = Some x"
    and "parse_elements n acc ts = Some x \<Longrightarrow> parse_elements m acc ts = Some x"
    and "parse_members n acc' ts = Some x \<Longrightarrow> parse_members m acc' ts = Some x"
proof -
  from assms obtain k where m: "m = n + k" by (auto simp: le_iff_add)
  have "parse_value n ts = Some x \<Longrightarrow> parse_value (n + k) ts = Some x" for ts x
    by (induction k) (auto simp del: parse_value.simps intro: parse_Suc_rules(1))
  moreover have "parse_elements n acc ts = Some x \<Longrightarrow> parse_elements (n + k) acc ts = Some x" for acc ts x
    by (induction k) (auto simp del: parse_elements.simps intro: parse_Suc_rules(2))
  moreover have "parse_members n acc' ts = Some x \<Longrightarrow> parse_members (n + k) acc' ts = Some x" for acc' ts x
    by (induction k) (auto simp del: parse_members.simps intro: parse_Suc_rules(3))
  ultimately show "parse_value n ts = Some x \<Longrightarrow> parse_value m ts = Some x"
    and "parse_elements n acc ts = Some x \<Longrightarrow> parse_elements m acc ts = Some x"
    and "parse_members n acc' ts = Some x \<Longrightarrow> parse_members m acc' ts = Some x"
    unfolding m by blast+
qed

lemma parse_bound:
  "(\<forall>ts v r. parse_value n ts = Some (v, r) \<longrightarrow>
      length r < length ts \<and> parse_value (2 * (length ts - length r)) ts = Some (v, r))
   \<and> (\<forall>acc ts v r. parse_elements n acc ts = Some (v, r) \<longrightarrow>
      length r < length ts \<and> parse_elements (Suc (2 * (length ts - length r))) acc ts = Some (v, r))
   \<and> (\<forall>acc ts v r. parse_members n acc ts = Some (v, r) \<longrightarrow>
      length r < length ts \<and> parse_members (Suc (2 * (length ts - length r))) acc ts = Some (v, r))"
proof (induction n)
  case 0
  then show ?case by simp
next
  case (Suc n)
  have v: "length r < length ts \<and> parse_value (2 * (length ts - length r)) ts = Some (v, r)"
    if "parse_value (Suc n) ts = Some (v, r)" for ts v r
  proof (cases "value_start ts")
    case (Scalar v' r')
    with that have eq: "v' = v" "r' = r" by simp_all
    from Scalar eq value_start_length(1) have l: "length r < length ts" by blast
    then obtain k where "2 * (length ts - length r) = Suc k"
      by (cases "2 * (length ts - length r)") auto
    with Scalar eq l show ?thesis by simp
  next
    case (OpenArray r0)
    with that have "parse_elements n [] r0 = Some (v, r)" by simp
    with Suc.IH have l: "length r < length r0"
      and p: "parse_elements (Suc (2 * (length r0 - length r))) [] r0 = Some (v, r)" by blast+
    from value_start_length(2) [OF OpenArray] have t: "length ts = Suc (length r0)" .
    with l have "2 * (length ts - length r) = Suc (Suc (2 * (length r0 - length r)))" by arith
    with OpenArray p l t show ?thesis by (simp del: parse_elements.simps)
  next
    case (OpenObject r0)
    with that have "parse_members n [] r0 = Some (v, r)" by simp
    with Suc.IH have l: "length r < length r0"
      and p: "parse_members (Suc (2 * (length r0 - length r))) [] r0 = Some (v, r)" by blast+
    from value_start_length(3) [OF OpenObject] have t: "length ts = Suc (length r0)" .
    with l have "2 * (length ts - length r) = Suc (Suc (2 * (length r0 - length r)))" by arith
    with OpenObject p l t show ?thesis by (simp del: parse_members.simps)
  next
    case NoValue
    with that show ?thesis by simp
  qed
  have e: "length r < length ts \<and> parse_elements (Suc (2 * (length ts - length r))) acc ts = Some (v, r)"
    if "parse_elements (Suc n) acc ts = Some (v, r)" for acc ts v r
  proof -
    from that obtain v1 r1 where p: "parse_value n ts = Some (v1, r1)"
      by (auto split: option.splits)
    with Suc.IH have l1: "length r1 < length ts"
      and p1: "parse_value (2 * (length ts - length r1)) ts = Some (v1, r1)" by blast+
    show ?thesis
    proof (cases "element_follow r1")
      case (More r')
      with that p have q: "parse_elements n (acc @ [v1]) r' = Some (v, r)" by simp
      with Suc.IH have l2: "length r < length r'"
        and p2: "parse_elements (Suc (2 * (length r' - length r))) (acc @ [v1]) r' = Some (v, r)" by blast+
      from follow_length(1) [OF More] have t: "length r1 = Suc (length r')" .
      have "2 * (length ts - length r1) \<le> 2 * (length ts - length r)"
        using l1 l2 t by arith
      from parse_mono(1) [OF this p1] have a: "parse_value (2 * (length ts - length r)) ts = Some (v1, r1)" .
      have "Suc (2 * (length r' - length r)) \<le> 2 * (length ts - length r)"
        using l1 l2 t by arith
      from parse_mono(2) [OF this p2]
      have b: "parse_elements (2 * (length ts - length r)) (acc @ [v1]) r' = Some (v, r)" .
      have "parse_elements (Suc (2 * (length ts - length r))) acc ts = Some (v, r)"
        using a b More
        by (simp del: parse_value.simps parse_elements.simps add: parse_elements.simps(2) [of "2 * (length ts - length r)"])
      moreover have "length r < length ts" using l1 l2 t by arith
      ultimately show ?thesis by blast
    next
      case (Close r')
      with that p have eq: "r' = r" "v = NArray (acc @ [v1])" by simp_all
      from follow_length(2) [OF Close] have t: "length r1 = Suc (length r')" .
      have "2 * (length ts - length r1) \<le> 2 * (length ts - length r)"
        using l1 t eq by arith
      from parse_mono(1) [OF this p1] have a: "parse_value (2 * (length ts - length r)) ts = Some (v1, r1)" .
      have "parse_elements (Suc (2 * (length ts - length r))) acc ts = Some (v, r)"
        using a Close eq
        by (simp del: parse_value.simps parse_elements.simps add: parse_elements.simps(2) [of "2 * (length ts - length r)"])
      moreover have "length r < length ts" using l1 t eq by simp
      ultimately show ?thesis by blast
    next
      case Stop
      with that p show ?thesis by simp
    qed
  qed
  have m: "length r < length ts \<and> parse_members (Suc (2 * (length ts - length r))) acc ts = Some (v, r)"
    if "parse_members (Suc n) acc ts = Some (v, r)" for acc ts v r
  proof -
    from that obtain k r0 where k: "member_key ts = Some (k, r0)"
      by (auto split: option.splits)
    from member_key_length [OF k] have t0: "length ts = Suc (Suc (length r0))" .
    from that k obtain v1 r1 where p: "parse_value n r0 = Some (v1, r1)"
      by (auto split: option.splits)
    with Suc.IH have l1: "length r1 < length r0"
      and p1: "parse_value (2 * (length r0 - length r1)) r0 = Some (v1, r1)" by blast+
    show ?thesis
    proof (cases "member_follow r1")
      case (More r')
      with that k p have q: "parse_members n (acc @ [(k, v1)]) r' = Some (v, r)" by simp
      with Suc.IH have l2: "length r < length r'"
        and p2: "parse_members (Suc (2 * (length r' - length r))) (acc @ [(k, v1)]) r' = Some (v, r)" by blast+
      from follow_length(3) [OF More] have t: "length r1 = Suc (length r')" .
      have "2 * (length r0 - length r1) \<le> 2 * (length ts - length r)"
        using l1 l2 t t0 by arith
      from parse_mono(1) [OF this p1] have a: "parse_value (2 * (length ts - length r)) r0 = Some (v1, r1)" .
      have "Suc (2 * (length r' - length r)) \<le> 2 * (length ts - length r)"
        using l1 l2 t t0 by arith
      from parse_mono(3) [OF this p2]
      have b: "parse_members (2 * (length ts - length r)) (acc @ [(k, v1)]) r' = Some (v, r)" .
      have "parse_members (Suc (2 * (length ts - length r))) acc ts = Some (v, r)"
        using a b More k
        by (simp del: parse_value.simps parse_members.simps add: parse_members.simps(2) [of "2 * (length ts - length r)"])
      moreover have "length r < length ts" using l1 l2 t t0 by arith
      ultimately show ?thesis by blast
    next
      case (Close r')
      with that k p have eq: "r' = r" "v = NObject (acc @ [(k, v1)])" by simp_all
      from follow_length(4) [OF Close] have t: "length r1 = Suc (length r')" .
      have "2 * (length r0 - length r1) \<le> 2 * (length ts - length r)"
        using l1 t t0 eq by arith
      from parse_mono(1) [OF this p1] have a: "parse_value (2 * (length ts - length r)) r0 = Some (v1, r1)" .
      have "parse_members (Suc (2 * (length ts - length r))) acc ts = Some (v, r)"
        using a Close k eq
        by (simp del: parse_value.simps parse_members.simps add: parse_members.simps(2) [of "2 * (length ts - length r)"])
      moreover have "length r < length ts" using l1 t t0 eq by simp
      ultimately show ?thesis by blast
    next
      case Stop
      with that k p show ?thesis by simp
    qed
  qed
  from v e m show ?case by blast
qed

lemma parse_fuel:
  "parse_value (2 * length ts) ts = Some (v, []) \<longleftrightarrow> (\<exists>n. parse_value n ts = Some (v, []))"
proof
  assume "\<exists>n. parse_value n ts = Some (v, [])"
  then obtain n where "parse_value n ts = Some (v, [])" ..
  with parse_bound [of n] show "parse_value (2 * length ts) ts = Some (v, [])" by fastforce
qed blast

lemma JSON_tree_unbounded:
  "JSON_tree s = Some v \<longleftrightarrow>
     (\<exists>ts n. lex_run LStart s = Some ts \<and> parse_value n ts = Some (v, []))"
proof
  assume "JSON_tree s = Some v"
  then show "\<exists>ts n. lex_run LStart s = Some ts \<and> parse_value n ts = Some (v, [])"
    by (auto simp: JSON_tree_def split: option.splits list.splits)
next
  assume "\<exists>ts n. lex_run LStart s = Some ts \<and> parse_value n ts = Some (v, [])"
  then obtain ts n where "lex_run LStart s = Some ts" and "parse_value n ts = Some (v, [])"
    by blast
  with parse_fuel [of ts v] show "JSON_tree s = Some v"
    by (auto simp: JSON_tree_def)
qed

section \<open>\<open>JSON.parse\<close> and the white space that \<open>trim\<close> removes\<close>

lemma is_js_space_iff:
  "is_js_space c \<longleftrightarrow>
     c = CHR 0x09 \<or> c = CHR 0x0A \<or> c = CHR 0x0B \<or> c = CHR 0x0C \<or> c = CHR 0x0D
     \<or> c = CHR 0x20 \<or> c = CHR 0xA0"
  by (simp add: is_js_space_def)

lemma js_space_not_word: "is_js_space c \<Longrightarrow> \<not> is_word_char c"
  unfolding is_js_space_iff
  by (elim disjE) (simp_all add: is_word_char_def is_digit_def char_between_def)

lemma js_space_unescape: "is_js_space c \<Longrightarrow> unescape c = None \<and> c \<noteq> CHR ''u''"
  unfolding is_js_space_iff
  by (elim disjE) (simp_all add: unescape_def)

lemma js_space_hex: "is_js_space c \<Longrightarrow> hex_value c = None"
  unfolding is_js_space_iff
  by (elim disjE) (simp_all add: hex_value_def is_digit_def char_between_def)

lemma js_space_start:
  "is_js_space c \<Longrightarrow> lstep_start c = None \<or> lstep_start c = Some ([], LStart)"
  unfolding is_js_space_iff
  by (elim disjE)
     (simp_all add: lstep_start_def is_json_space_def is_word_char_def is_digit_def char_between_def)

lemma js_space_quote: "is_js_space c \<Longrightarrow> c \<noteq> CHR 0x22 \<and> c \<noteq> CHR 0x5C"
  unfolding is_js_space_iff
  by (elim disjE) simp_all

text \<open>
  A white-space character that the lexer accepts as the last one of a text leaves the
  tokens as they were before it: it stands between tokens or ends a number or a name.
\<close>

lemma lstep_space_finish:
  assumes sp: "is_js_space c" and st: "lstep st c = Some (ts, st')" and fin: "lfinish st' = Some ts'"
  shows "lfinish st = Some (ts @ ts')"
proof (cases st)
  case LStart
  with st js_space_start [OF sp] fin show ?thesis by auto
next
  case (LWord w)
  with st js_space_not_word [OF sp] js_space_start [OF sp] fin show ?thesis
    by (auto split: option.splits)
next
  case (LStr s)
  with st js_space_quote [OF sp] fin show ?thesis
    by (auto split: if_splits)
next
  case (LEsc s)
  with st js_space_unescape [OF sp] show ?thesis by simp
next
  case (LUni s hs)
  with st js_space_hex [OF sp] show ?thesis by simp
qed

lemma lex_run_Cons_Some:
  "lex_run st (c # cs) = Some ts \<longleftrightarrow>
     (\<exists>ts0 st' ts1. lstep st c = Some (ts0, st') \<and> lex_run st' cs = Some ts1 \<and> ts = ts0 @ ts1)"
  by (auto split: option.splits)

lemma lex_run_trailing_space:
  "lex_run st (s @ [c]) = Some ts \<Longrightarrow> is_js_space c \<Longrightarrow> lex_run st s = Some ts"
proof (induction s arbitrary: st ts)
  case Nil
  from Nil.prems(1) have "lex_run st [c] = Some ts" by simp
  then obtain ts0 st' ts1 where
    s: "lstep st c = Some (ts0, st')" and r: "lex_run st' [] = Some ts1" and t: "ts = ts0 @ ts1"
    unfolding lex_run_Cons_Some by blast
  from r have "lfinish st' = Some ts1" by simp
  from lstep_space_finish [OF Nil.prems(2) s this] t show ?case by simp
next
  case (Cons d ds)
  from Cons.prems(1) have "lex_run st (d # (ds @ [c])) = Some ts" by simp
  then obtain ts0 st' ts1 where
    s: "lstep st d = Some (ts0, st')" and r: "lex_run st' (ds @ [c]) = Some ts1"
    and t: "ts = ts0 @ ts1"
    unfolding lex_run_Cons_Some by blast
  from Cons.IH [OF r Cons.prems(2)] s t show ?case
    unfolding lex_run_Cons_Some by blast
qed

lemma lex_run_trimEnd:
  "lex_run st s = Some ts \<Longrightarrow> lex_run st (rev (dropWhile is_js_space (rev s))) = Some ts"
proof (induction s arbitrary: ts rule: rev_induct)
  case Nil
  then show ?case by simp
next
  case (snoc x xs)
  show ?case
  proof (cases "is_js_space x")
    case True
    from lex_run_trailing_space [OF snoc.prems True] have "lex_run st xs = Some ts" .
    from snoc.IH [OF this] True show ?thesis by simp
  next
    case False
    with snoc.prems show ?thesis by simp
  qed
qed

lemma lex_run_trimStart:
  "lex_run LStart s = Some ts \<Longrightarrow> lex_run LStart (dropWhile is_js_space s) = Some ts"
proof (induction s)
  case Nil
  then show ?case by simp
next
  case (Cons c cs)
  show ?case
  proof (cases "is_js_space c")
    case True
    from Cons.prems obtain ts0 st' ts1 where
      s: "lstep LStart c = Some (ts0, st')" and r: "lex_run st' cs = Some ts1"
      and t: "ts = ts0 @ ts1"
      unfolding lex_run_Cons_Some by blast
    from s js_space_start [OF True] have "ts0 = [] \<and> st' = LStart" by auto
    with r t have "lex_run LStart cs = Some ts" by simp
    from Cons.IH [OF this] True show ?thesis by simp
  next
    case False
    with Cons.prems show ?thesis by simp
  qed
qed

lemma JSON_tree_trim:
  assumes "JSON_tree s = Some t"
  shows "JSON_tree (trim s) = Some t"
proof -
  from assms obtain ts where l: "lex_run LStart s = Some ts"
    by (auto simp: JSON_tree_def split: option.splits)
  have "lex_run LStart (trim s) = Some ts"
    unfolding trim_def by (rule lex_run_trimEnd) (rule lex_run_trimStart [OF l])
  with assms l show ?thesis
    by (simp add: JSON_tree_def)
qed

lemma JSON_parse_trim:
  assumes "JSON_parse num s = Some v"
  shows "JSON_parse num (trim s) = Some v"
proof -
  from assms obtain t where "JSON_tree s = Some t" and "value_of num t = v"
    by (auto simp: JSON_parse_def)
  with JSON_tree_trim [of s t] show ?thesis
    by (simp add: JSON_parse_def)
qed

text \<open>A JSON text does not end with a backtick: outside a string the lexer refuses it.\<close>

lemma lstep_backtick_finish:
  assumes "lstep st (CHR ''`'') = Some (ts, st')"
  shows "lfinish st' = None"
proof (cases st)
  case LStart
  with assms show ?thesis
    by (simp add: lstep_start_def is_json_space_def is_word_char_def is_digit_def char_between_def)
next
  case (LWord w)
  with assms show ?thesis
    by (simp add: lstep_start_def is_json_space_def is_word_char_def is_digit_def char_between_def
          split: option.splits)
next
  case (LStr s)
  with assms show ?thesis by auto
next
  case (LEsc s)
  with assms show ?thesis by (simp add: unescape_def)
next
  case (LUni s hs)
  with assms show ?thesis by (simp add: hex_value_def is_digit_def char_between_def)
qed

lemma lex_run_last_not_backtick:
  "lex_run st (s @ [c]) = Some ts \<Longrightarrow> c \<noteq> CHR ''`''"
proof (induction s arbitrary: st ts)
  case Nil
  from Nil.prems have "lex_run st [c] = Some ts" by simp
  then obtain ts0 st' ts1 where
    s: "lstep st c = Some (ts0, st')" and r: "lex_run st' [] = Some ts1"
    unfolding lex_run_Cons_Some by blast
  from r have f: "lfinish st' \<noteq> None" by simp
  show ?case
  proof
    assume "c = CHR ''`''"
    with s have "lstep st (CHR ''`'') = Some (ts0, st')" by simp
    from lstep_backtick_finish [OF this] f show False by simp
  qed
next
  case (Cons d ds)
  from Cons.prems have "lex_run st (d # (ds @ [c])) = Some ts" by simp
  then obtain ts0 st' ts1 where r: "lex_run st' (ds @ [c]) = Some ts1"
    unfolding lex_run_Cons_Some by blast
  from Cons.IH [OF r] show ?case .
qed

lemma JSON_parse_last:
  assumes "JSON_parse num s = Some v"
  shows "s \<noteq> [] \<and> last s \<noteq> CHR ''`''"
proof -
  from assms obtain t where t: "JSON_tree s = Some t"
    by (auto simp: JSON_parse_def)
  then obtain ts where l: "lex_run LStart s = Some ts"
    by (auto simp: JSON_tree_def split: option.splits)
  have ne: "s \<noteq> []"
    using t by (auto simp: JSON_tree_def)
  then have "s = butlast s @ [last s]" by simp
  with l have "lex_run LStart (butlast s @ [last s]) = Some ts" by simp
  then have "last s \<noteq> CHR ''`''" by (rule lex_run_last_not_backtick)
  with ne show ?thesis by simp
qed

section \<open>Removing the fence markers\<close>

lemma replace_g_absent: "p \<noteq> [] \<Longrightarrow> \<not> occurs p s \<Longrightarrow> replace_g p r s = s"
  by (induction s) auto

lemma replace_g_skip:
  "\<not> startsWith p (c # t) \<Longrightarrow> p \<noteq> [] \<Longrightarrow> replace_g p r (c # t) = c # replace_g p r t"
  by simp

lemma no_json_fence_in_tail:
  "\<not> occurs ''```'' j \<Longrightarrow> \<not> occurs ''```json'' (j @ ''```'')"
proof (induction j)
  case Nil
  then show ?case by simp
next
  case (Cons c cs)
  from Cons.prems have n: "\<not> startsWith ''```'' (c # cs)" and m: "\<not> occurs ''```'' cs"
    by simp_all
  have "\<not> startsWith ''```json'' (c # cs @ ''```'')"
  proof (cases cs)
    case Nil
    then show ?thesis by simp
  next
    case (Cons d ds)
    note c1 = this
    show ?thesis
    proof (cases ds)
      case Nil
      with c1 show ?thesis by simp
    next
      case (Cons e es)
      with c1 n show ?thesis by auto
    qed
  qed
  with Cons.IH [OF m] show ?case by simp
qed

lemma closing_fence_removed:
  "\<not> occurs ''```'' j \<Longrightarrow> j = [] \<or> last j \<noteq> CHR ''`'' \<Longrightarrow> replace_g ''```'' [] (j @ ''```'') = j"
proof (induction j)
  case Nil
  then show ?case by simp
next
  case (Cons c cs)
  from Cons.prems have n: "\<not> startsWith ''```'' (c # cs)" and m: "\<not> occurs ''```'' cs"
    by simp_all
  from Cons.prems(2) have l: "cs = [] \<or> last cs \<noteq> CHR ''`''"
    by (cases cs) simp_all
  have "\<not> startsWith ''```'' (c # cs @ ''```'')"
  proof (cases cs)
    case Nil
    with Cons.prems(2) show ?thesis by simp
  next
    case (Cons d ds)
    note c1 = this
    show ?thesis
    proof (cases ds)
      case Nil
      with c1 Cons.prems(2) show ?thesis by auto
    next
      case (Cons e es)
      with c1 n show ?thesis by auto
    qed
  qed
  then have "replace_g ''```'' [] (c # cs @ ''```'') = c # replace_g ''```'' [] (cs @ ''```'')"
    by (rule replace_g_skip) simp
  with Cons.IH [OF m l] show ?case by (simp only: append_Cons)
qed

lemma strip_fences_fenced:
  assumes "\<not> occurs ''```'' j" and "j = [] \<or> last j \<noteq> CHR ''`''"
  shows "strip_fences (''```json'' @ j @ ''```'') = trim j"
proof -
  have "replace_g ''```json'' [] (''```json'' @ j @ ''```'') = replace_g ''```json'' [] (j @ ''```'')"
    by simp
  also have "\<dots> = j @ ''```''"
    by (rule replace_g_absent) (simp, rule no_json_fence_in_tail [OF assms(1)])
  finally show ?thesis
    by (simp only: strip_fences_def closing_fence_removed [OF assms])
qed

section \<open>The capability probe\<close>

text \<open>
  C9. \<open>checkLocalAICapability\<close> never throws: for every host it resolves, and with
  \<open>true\<close> exactly when \<open>window.ai\<close> and its language model are there and the query
  resolves with the availability \<open>readily\<close>. Every other tier, a missing feature and a
  failing query give \<open>false\<close>.
\<close>

theorem checkLocalAICapability_readily:
  "checkLocalAICapability h =
     Inr (\<exists>w a lm c. window h = Some w \<and> ai w = Some a \<and> languageModel a = Some lm \<and>
            capabilities lm = Inr c \<and> available c = ''readily'')"
  by (auto simp: checkLocalAICapability_def queryCapabilities_def
           split: option.splits sum.splits)

theorem checkLocalAICapability_readily_witness:
  "checkLocalAICapability (host0\<lparr>window := Some (nano ''readily'' (\<lambda>p. Inr []))\<rparr>) = Inr True
   \<and> checkLocalAICapability (host0\<lparr>window := Some (nano ''after-download'' (\<lambda>p. Inr []))\<rparr>)
       = Inr False
   \<and> checkLocalAICapability host0 = Inr False"
  using checkLocalAICapability_readily [of "host0\<lparr>window := Some (nano ''readily'' (\<lambda>p. Inr []))\<rparr>"]
    checkLocalAICapability_readily
      [of "host0\<lparr>window := Some (nano ''after-download'' (\<lambda>p. Inr []))\<rparr>"]
    checkLocalAICapability_readily [of host0]
  by (simp add: host0_def nano_def)

section \<open>Identification requests\<close>

lemma handleFileSelect_trace:
  "snd (snd (handleFileSelect isOnline h st)) =
     (case selected h of
        None \<Rightarrow> []
      | Some (processFile, objectUrl) \<Rightarrow>
          snd (identification_request isOnline h processFile objectUrl))"
  by (auto simp: handleFileSelect_def selected_def Let_def case_prod_beta
           split: option.splits outcome.splits)

lemma request_without_labels:
  assumes "\<not> isOnline" and "onload h objectUrl"
    and "fst (classifyImageOffline h objectUrl) = Inr []"
  shows "fst (identification_request isOnline h processFile objectUrl) = Threw NoObjectDetectedError"
    and "filter local_model_event (snd (identification_request isOnline h processFile objectUrl)) = []"
  using assms classifyImageOffline_trace(2) [of h objectUrl]
  by (cases "classifyImageOffline h objectUrl";
      simp add: identification_request_def NoObjectDetectedError_def)+

lemma request_branches:
  "isOnline \<Longrightarrow> filter offline_event (snd (identification_request isOnline h f url)) = []"
  "isOnline \<Longrightarrow> readAsDataURL h f = Inr d \<Longrightarrow>
     Call IdentifyPlant \<in> set (snd (identification_request isOnline h f url))"
  "\<not> isOnline \<Longrightarrow> filter cloud_event (snd (identification_request isOnline h f url)) = []"
  "\<not> isOnline \<Longrightarrow> onload h url \<Longrightarrow>
     Call ClassifyImageOffline \<in> set (snd (identification_request isOnline h f url))"
  "\<not> isOnline \<Longrightarrow> onload h url \<Longrightarrow> fst (classifyImageOffline h url) = Inr (l # ls) \<Longrightarrow>
     Call IdentifyPlantLocal \<in> set (snd (identification_request isOnline h f url))"
  using classifyImageOffline_trace [of h url] identifyPlantLocal_trace [of h]
  by (auto simp: identification_request_def Let_def case_prod_beta identifyPlant_trace
           split: sum.splits)

text \<open>
  C2. Offline, when the image has loaded and the classifier returns the empty label
  list, the identification request fails with \<open>NoObjectDetectedError\<close>, thrown in the
  \<open>try\<close> block of \<open>handleFileSelect\<close>, and the trace of \<open>handleFileSelect\<close> has no event
  of the local language model: \<open>identifyPlantLocal\<close> is not entered, no session is
  created and no prompt is sent. The handler ends with its offline error message and
  without a plant.
\<close>

theorem empty_labels_fail_before_generation:
  assumes "\<not> isOnline" and "selected h = Some (processFile, objectUrl)"
    and "onload h objectUrl"
    and "fst (classifyImageOffline h objectUrl) = Inr []"
  shows "fst (identification_request isOnline h processFile objectUrl) = Threw NoObjectDetectedError
       \<and> filter local_model_event (snd (snd (handleFileSelect isOnline h st))) = []
       \<and> fst (handleFileSelect isOnline h st) = Returned ()
       \<and> plantData (fst (snd (handleFileSelect isOnline h st))) = None
       \<and> error (fst (snd (handleFileSelect isOnline h st))) =
           Some ''Offline identification failed. Try a clearer photo or reconnect to internet.''"
proof -
  note r = request_without_labels [OF assms(1,3,4), of processFile]
  from assms(2) obtain fl where f: "files h = Some fl" "process_file h fl = Some processFile"
    "createObjectURL h processFile = objectUrl"
    by (auto simp: selected_def split: option.splits)
  have "filter local_model_event (snd (snd (handleFileSelect isOnline h st))) = []"
    using r(2) assms(2) by (simp add: handleFileSelect_trace)
  moreover have "fst (handleFileSelect isOnline h st) = Returned ()
       \<and> plantData (fst (snd (handleFileSelect isOnline h st))) = None
       \<and> error (fst (snd (handleFileSelect isOnline h st))) =
           Some ''Offline identification failed. Try a clearer photo or reconnect to internet.''"
    using r(1) f assms(1)
    by (cases "identification_request isOnline h processFile objectUrl")
       (simp add: handleFileSelect_def)
  ultimately show ?thesis using r(1) by simp
qed

theorem empty_labels_fail_before_generation_witness:
  "selected host_blank = Some (file0, ''blob:1'')
   \<and> onload host_blank ''blob:1''
   \<and> fst (classifyImageOffline host_blank ''blob:1'') = Inr []
   \<and> fst (identification_request False host_blank file0 ''blob:1'') = Threw NoObjectDetectedError
   \<and> filter local_model_event (snd (snd (handleFileSelect False host_blank app0))) = []
   \<and> plantData (fst (snd (handleFileSelect False host_blank app0))) = None"
  using empty_labels_fail_before_generation [of False host_blank file0 "''blob:1''" app0]
  by (simp add: host_blank_def host0_def classifyImageOffline_def selected_def process_file_def
        is_heic_file0)

text \<open>
  C6. The backend of a run of \<open>handleFileSelect\<close> is chosen by \<open>isOnline\<close> alone. Online,
  no event of the classifier or of the local model occurs, and \<open>identifyPlant\<close> is
  entered as soon as the file has been read. Offline, no event of the cloud occurs,
  \<open>classifyImageOffline\<close> is entered as soon as the image has loaded, and
  \<open>identifyPlantLocal\<close> is entered when the classifier has named a label.
\<close>

theorem backend_selected_by_connectivity:
  "(isOnline \<longrightarrow>
      filter offline_event (snd (snd (handleFileSelect isOnline h st))) = []
      \<and> (\<forall>f url d. selected h = Some (f, url) \<and> readAsDataURL h f = Inr d \<longrightarrow>
            Call IdentifyPlant \<in> set (snd (snd (handleFileSelect isOnline h st)))))
   \<and> (\<not> isOnline \<longrightarrow>
      filter cloud_event (snd (snd (handleFileSelect isOnline h st))) = []
      \<and> (\<forall>f url. selected h = Some (f, url) \<and> onload h url \<longrightarrow>
            Call ClassifyImageOffline \<in> set (snd (snd (handleFileSelect isOnline h st))))
      \<and> (\<forall>f url l ls. selected h = Some (f, url) \<and> onload h url
              \<and> fst (classifyImageOffline h url) = Inr (l # ls) \<longrightarrow>
            Call IdentifyPlantLocal \<in> set (snd (snd (handleFileSelect isOnline h st)))))"
proof (cases "selected h")
  case None
  then show ?thesis by (simp add: handleFileSelect_trace)
next
  case (Some p)
  then obtain f url where "selected h = Some (f, url)" by (cases p) simp
  then show ?thesis
    using request_branches [where isOnline = isOnline and h = h and f = f and url = url]
    by (auto simp: handleFileSelect_trace)
qed

theorem backend_selected_by_connectivity_witness:
  "selected host0 = Some (file0, ''blob:1'')
   \<and> filter offline_event (snd (snd (handleFileSelect True host0 app0))) = []
   \<and> Call IdentifyPlant \<in> set (snd (snd (handleFileSelect True host0 app0)))
   \<and> filter cloud_event (snd (snd (handleFileSelect False (host_rose (\<lambda>p. Inr ''{}'')) app0))) = []
   \<and> Call ClassifyImageOffline
        \<in> set (snd (snd (handleFileSelect False (host_rose (\<lambda>p. Inr ''{}'')) app0)))
   \<and> Call IdentifyPlantLocal
        \<in> set (snd (snd (handleFileSelect False (host_rose (\<lambda>p. Inr ''{}'')) app0)))"
  using backend_selected_by_connectivity [of True host0 app0]
    backend_selected_by_connectivity [of False "host_rose (\<lambda>p. Inr ''{}'')" app0]
  by (simp add: host_rose_def host0_def classifyImageOffline_def selected_def process_file_def
        is_heic_file0)

section \<open>The record an identification returns\<close>

text \<open>
  C1. \<open>identifyPlant\<close> asks the provider for all fields: the request carries the
  response schema, whose \<open>required\<close> lists are the six fields of \<open>PlantInfo\<close> and the
  five of \<open>CareInstructions\<close> (\<open>identifyPlant_request\<close>, \<open>responseSchema_required\<close>).
  \<open>identifyPlantLocal\<close> has no schema and returns what \<open>JSON.parse\<close> yields, unchecked.
  For the labels rose, flower, plant and a local model that answers \<open>{}\<close> it resolves
  with the empty object, which has none of the fields; \<open>handleFileSelect\<close> stores that
  object as the plant, and the render of \<open>PlantCard\<close> throws a TypeError at the first
  care item.
\<close>

theorem local_record_without_fields:
  "fst (identifyPlantLocal (host_rose (\<lambda>p. Inr ''{}'')) labels0) = Inr (JObject [])
   \<and> \<not> all_fields_present (JObject [])
   \<and> plantData (fst (snd (handleFileSelect False (host_rose (\<lambda>p. Inr ''{}'')) app0)))
       = Some (JObject [])
   \<and> PlantCard_care (JObject []) = Inl TypeError"
proof -
  have 1: "identifyPlantLocal (host_rose (\<lambda>p. Inr ''{}'')) labels0 =
             (Inr (JObject []),
              [Call IdentifyPlantLocal, Create local_systemPrompt,
               Prompt 7 (local_prompt (join labels0 '', '')), Destroy 7])"
    by (simp add: identifyPlantLocal_def host_rose_def host0_def nano_def session0_def
          generate_local_def JSON_parse_strip_braces)
  have 2: "classifyImageOffline (host_rose (\<lambda>p. Inr ''{}'')) ''blob:1'' =
             (Inr labels0, [Call ClassifyImageOffline, Classify ''blob:1''])"
    by (simp add: classifyImageOffline_def host_rose_def host0_def labels0_def)
  have f: "files (host_rose (\<lambda>p. Inr ''{}'')) = Some file0"
    "process_file (host_rose (\<lambda>p. Inr ''{}'')) file0 = Some file0"
    "createObjectURL (host_rose (\<lambda>p. Inr ''{}'')) file0 = ''blob:1''"
    "onload (host_rose (\<lambda>p. Inr ''{}'')) ''blob:1''"
    by (simp_all add: host_rose_def host0_def process_file_def is_heic_file0)
  have l: "length labels0 \<noteq> 0"
    by (simp add: labels0_def)
  have r: "fst (identification_request False (host_rose (\<lambda>p. Inr ''{}'')) file0 ''blob:1'')
             = Returned (JObject [])"
    using f(4) l by (simp add: identification_request_def 1 2)
  have 3: "plantData (fst (snd (handleFileSelect False (host_rose (\<lambda>p. Inr ''{}'')) app0)))
             = Some (JObject [])"
    using r f
    by (cases "identification_request False (host_rose (\<lambda>p. Inr ''{}'')) file0 ''blob:1''")
       (simp add: handleFileSelect_def)
  from 1 3 PlantCard_care_empty empty_record_incomplete show ?thesis by simp
qed

section \<open>The session of an offline identification\<close>

lemma session_released_when_destroy_returns:
  assumes "window h = Some w" and "ai w = Some a" and "languageModel a = Some lm"
    and "create lm local_systemPrompt = Inr s" and "destroy s 0 = None"
  shows "snd (identifyPlantLocal h labels) =
           [Call IdentifyPlantLocal, Create local_systemPrompt,
            Prompt (sid s) (local_prompt (join labels '', '')), Destroy (sid s)]"
    and "fst (identifyPlantLocal h labels) =
           (case generate_local h s (local_prompt (join labels '', '')) of
              Inr data \<Rightarrow> Inr data
            | Inl e \<Rightarrow> Inl (Error ''Could not generate plant details offline.''))"
  using assms
  by (auto simp: identifyPlantLocal_def generation_failed_def Let_def split: sum.splits)

text \<open>
  C8. \<open>identifyPlantLocal\<close> calls \<open>destroy\<close> after the parse and in its \<open>catch\<close> block,
  so the session is released once on every path on which \<open>destroy\<close> returns
  (\<open>session_released_when_destroy_returns\<close>). The call after the parse stands inside the
  \<open>try\<close> block: when it throws, the \<open>catch\<close> block calls \<open>destroy\<close> a second time and
  the parsed record is lost. For the labels rose, flower, plant, a local model that
  answers \<open>{}\<close> and a session whose first \<open>destroy\<close> throws, the output is parsed, the
  trace holds two calls of \<open>destroy\<close> on the session, and the call rejects.
\<close>

theorem destroy_throwing_after_parse:
  "generate_local (host_stuck (\<lambda>p. Inr ''{}''))
      \<lparr>sid = 7, prompt = (\<lambda>p. Inr ''{}''),
       destroy = (\<lambda>n. if n = 0 then Some (Rejected ''destroy'') else None)\<rparr>
      (local_prompt (join labels0 '', '')) = Inr (JObject [])
   \<and> identifyPlantLocal (host_stuck (\<lambda>p. Inr ''{}'')) labels0 =
       (Inl (Error ''Could not generate plant details offline.''),
        [Call IdentifyPlantLocal, Create local_systemPrompt,
         Prompt 7 (local_prompt (join labels0 '', '')), Destroy 7, Destroy 7])
   \<and> length (filter ((=) (Destroy 7))
         (snd (identifyPlantLocal (host_stuck (\<lambda>p. Inr ''{}'')) labels0))) = 2"
  by (simp add: identifyPlantLocal_def host_stuck_def host_rose_def host0_def
        generate_local_def generation_failed_def JSON_parse_strip_braces)

section \<open>Fenced output of the local model\<close>

text \<open>
  C7, as the claim states it, fails: every sequence of three backticks is removed from
  the output, also inside a string of the JSON. The text below is the JSON of a complete
  record whose description holds such sequences; wrapped in the fences it gives a record
  with another description than the parse of the unfenced text.
\<close>

theorem fence_inside_text_counterexample:
  "JSON_parse (NumericValue (host_rose (\<lambda>p. Inr (''```json'' @ plant_text shears @ ''```''))))
      (plant_text shears) = Some (plant_record shears)
   \<and> all_fields_present (plant_record shears)
   \<and> fst (identifyPlantLocal
             (host_rose (\<lambda>p. Inr (''```json'' @ plant_text shears @ ''```''))) labels0)
       = Inr (plant_record ''Prune with sharp shears.'')
   \<and> plant_record ''Prune with sharp shears.'' \<noteq> plant_record shears"
proof -
  have "fst (identifyPlantLocal
               (host_rose (\<lambda>p. Inr (''```json'' @ plant_text shears @ ''```''))) labels0)
          = Inr (plant_record ''Prune with sharp shears.'')"
    by (simp add: identifyPlantLocal_def host_rose_def host0_def nano_def session0_def
          generate_local_def parse_fenced_shears del: append.simps)
  then show ?thesis
    using parse_shears complete_shears shears_differ by simp
qed

text \<open>
  C7, amended. For every label sequence, when the local model answers with a JSON text
  wrapped in \<open>```json\<close> and \<open>```\<close>, the text itself holds no sequence of three
  backticks and the \<open>destroy\<close> of the session returns, the markers are removed, the
  rest is trimmed, and \<open>identifyPlantLocal\<close> returns the value that \<open>JSON.parse\<close>
  yields for the unfenced text.
\<close>

theorem fenced_output_is_unfenced_parse:
  assumes "window h = Some w" and "ai w = Some a" and "languageModel a = Some lm"
    and "create lm local_systemPrompt = Inr s"
    and "prompt s (local_prompt (join labels '', '')) = Inr (''```json'' @ j @ ''```'')"
    and "JSON_parse (NumericValue h) j = Some v"
    and "\<not> occurs ''```'' j"
    and "destroy s 0 = None"
  shows "strip_fences (''```json'' @ j @ ''```'') = trim j
       \<and> fst (identifyPlantLocal h labels) = Inr v"
proof -
  from JSON_parse_last [OF assms(6)] have "j = [] \<or> last j \<noteq> CHR ''`''" by simp
  from strip_fences_fenced [OF assms(7) this]
  have 1: "strip_fences (''```json'' @ j @ ''```'') = trim j" .
  from assms(1-5,8) 1 JSON_parse_trim [OF assms(6)] show ?thesis
    by (simp add: identifyPlantLocal_def generate_local_def)
qed

theorem fenced_output_is_unfenced_parse_witness:
  "JSON_parse (NumericValue (host_rose (\<lambda>p. Inr (''```json'' @ plant_text woody @ ''```''))))
      (plant_text woody) = Some (plant_record woody)
   \<and> \<not> occurs ''```'' (plant_text woody)
   \<and> fst (identifyPlantLocal
             (host_rose (\<lambda>p. Inr (''```json'' @ plant_text woody @ ''```''))) labels0)
       = Inr (plant_record woody)"
  using fenced_output_is_unfenced_parse
      [of "host_rose (\<lambda>p. Inr (''```json'' @ plant_text woody @ ''```''))"
          "nano ''readily'' (\<lambda>p. Inr (''```json'' @ plant_text woody @ ''```''))"
          "AI (Some \<lparr>capabilities = Inr (Capabilities ''readily''),
                     create = (\<lambda>p. Inr (session0
                                (\<lambda>p. Inr (''```json'' @ plant_text woody @ ''```''))))\<rparr>)"
          "\<lparr>capabilities = Inr (Capabilities ''readily''),
            create = (\<lambda>p. Inr (session0 (\<lambda>p. Inr (''```json'' @ plant_text woody @ ''```''))))\<rparr>"
          "session0 (\<lambda>p. Inr (''```json'' @ plant_text woody @ ''```''))"
          labels0 "plant_text woody" "plant_record woody"]
  by (simp add: host_rose_def host0_def nano_def session0_def parse_woody woody_no_fence)

section \<open>Chat sends\<close>

text \<open>
  C3, as the claim states it, fails: offline and with the capability flag unset,
  \<open>handleSend\<close> returns at its guard. The state is unchanged, so no assistant turn is
  produced.
\<close>

theorem offline_unready_send_counterexample:
  "handleSend None False host0 chat0 = (Inr (), chat0, [])"
  by (simp add: handleSend_def chat0_def)

text \<open>
  C3, amended. Offline and with the local model not ready, a chat send does nothing: the
  state is unchanged, no backend is called and nothing is thrown. The static message is
  the reply of an offline send only when the capability flag is set and no local session
  exists.
\<close>

theorem offline_send_without_local_model:
  assumes "\<not> isOnline"
  shows "(\<not> isLocalAI st \<longrightarrow> handleSend ctx isOnline h st = (Inr (), st, []))
       \<and> (isLocalAI st \<and> localSession st = None \<and> trim (input st) \<noteq> [] \<and> \<not> isLoading st \<longrightarrow>
            handleSend ctx isOnline h st = (Inr (), appended h st offline_unavailable, []))"
  using assms
  by (simp add: handleSend_def respond_def appended_def offline_unavailable_def)

theorem offline_send_without_local_model_witness:
  "handleSend None False host0 chat0 = (Inr (), chat0, [])
   \<and> handleSend None False host0 chat_flag =
       (Inr (), appended host0 chat_flag offline_unavailable, [])"
  using offline_send_without_local_model [of False chat0 None host0]
    offline_send_without_local_model [of False chat_flag None host0]
  by (simp add: chat0_def chat_flag_def trim_input0)

text \<open>
  C5. A send with a live local session whose prompt resolves is answered by that
  session, online as well as offline: the user turn and the session's reply are
  appended, the trace is the one prompt, and no event of the cloud occurs.
\<close>

theorem local_ready_send_uses_local:
  assumes "trim (input st) \<noteq> []" and "\<not> isLoading st"
    and "isLocalAI st" and "localSession st = Some s" and "prompt s (input st) = Inr r"
  shows "handleSend ctx isOnline h st =
           (Inr (), appended h st r, [Prompt (sid s) (input st)])
       \<and> filter cloud_event (snd (snd (handleSend ctx isOnline h st))) = []"
  using assms
  by (simp add: handleSend_def respond_def appended_def)

theorem local_ready_send_uses_local_witness:
  "handleSend None True host_cloud (chat_local (\<lambda>p. Inr ''Water it weekly.'')) =
     (Inr (), appended host_cloud (chat_local (\<lambda>p. Inr ''Water it weekly.'')) ''Water it weekly.'',
      [Prompt 7 ''Is it safe for cats?''])
   \<and> filter cloud_event
        (snd (snd (handleSend None True host_cloud (chat_local (\<lambda>p. Inr ''Water it weekly.''))))) = []"
  using local_ready_send_uses_local
    [of "chat_local (\<lambda>p. Inr ''Water it weekly.'')" "session0 (\<lambda>p. Inr ''Water it weekly.'')"
        "''Water it weekly.''" None True host_cloud]
  by (simp add: chat_local_def chat0_def session0_def trim_input0)

text \<open>
  C4, as the claim states it, fails: the one assistant turn is not always the reply of
  the cloud. Online, with a local session whose prompt throws and no API key,
  \<open>sendChatMessage\<close> throws before a request is sent, and the turn is the fixed apology
  of the outer \<open>catch\<close>. With a key and a provider that fails, the request is sent and
  the turn is the same apology.
\<close>

theorem cloud_retry_failing_counterexample:
  "handleSend None True host0 (chat_local (\<lambda>p. Inl (Rejected ''session''))) =
     (Inr (),
      appended host0 (chat_local (\<lambda>p. Inl (Rejected ''session''))) lost_connection,
      [Prompt 7 ''Is it safe for cats?'', Call SendChatMessage])
   \<and> fst (sendChatMessage host0 (history (chat_local (\<lambda>p. Inl (Rejected ''session''))))
          ''Is it safe for cats?'' None)
       = Inl (Error ''API_KEY is not defined in the environment'')
   \<and> fst (snd (handleSend None True (host0\<lparr>API_KEY := Some ''key''\<rparr>)
          (chat_local (\<lambda>p. Inl (Rejected ''session''))))) =
       appended (host0\<lparr>API_KEY := Some ''key''\<rparr>)
         (chat_local (\<lambda>p. Inl (Rejected ''session''))) lost_connection
   \<and> fst (sendChatMessage (host0\<lparr>API_KEY := Some ''key''\<rparr>)
          (history (chat_local (\<lambda>p. Inl (Rejected ''session''))))
          ''Is it safe for cats?'' None)
       = Inl (Rejected ''network'')"
  by (simp add: handleSend_def respond_def sendChatMessage_def getAiClient_def appended_def
        lost_connection_def chat_local_def chat0_def session0_def host0_def trim_input0)

text \<open>
  C4, amended. When the prompt of the local session throws during a send and the device
  is online, \<open>sendChatMessage\<close> is entered exactly once, exactly one assistant turn
  follows the user turn in the history, and \<open>handleSend\<close> resolves. The turn is the
  reply of the cloud when \<open>sendChatMessage\<close> returns one; when \<open>sendChatMessage\<close>
  throws as well, it is the fixed apology of the outer \<open>catch\<close>.
\<close>

theorem local_failure_falls_back_to_cloud_once:
  assumes "trim (input st) \<noteq> []" and "\<not> isLoading st"
    and "isLocalAI st" and "localSession st = Some s" and "prompt s (input st) = Inl e"
    and "isOnline"
  shows "handleSend ctx isOnline h st =
           (Inr (),
            appended h st
              (case fst (sendChatMessage h (history st) (input st) ctx) of
                 Inr reply \<Rightarrow> reply
               | Inl e' \<Rightarrow> lost_connection),
            Prompt (sid s) (input st) # snd (sendChatMessage h (history st) (input st) ctx))
       \<and> length (filter ((=) (Call SendChatMessage)) (snd (snd (handleSend ctx isOnline h st)))) = 1
       \<and> length (filter (\<lambda>m. role m = Model) (history (fst (snd (handleSend ctx isOnline h st)))))
           = Suc (length (filter (\<lambda>m. role m = Model) (history st)))"
proof -
  have 1: "handleSend ctx isOnline h st =
           (Inr (),
            appended h st
              (case fst (sendChatMessage h (history st) (input st) ctx) of
                 Inr reply \<Rightarrow> reply
               | Inl e' \<Rightarrow> lost_connection),
            Prompt (sid s) (input st) # snd (sendChatMessage h (history st) (input st) ctx))"
    using assms
    by (cases "sendChatMessage h (history st) (input st) ctx")
       (auto simp: handleSend_def respond_def appended_def lost_connection_def split: sum.splits)
  show ?thesis
    unfolding 1 by (simp add: sendChatMessage_calls appended_def)
qed

theorem local_failure_falls_back_to_cloud_once_witness:
  "fst (snd (handleSend None True host_cloud (chat_local (\<lambda>p. Inl (Rejected ''session'')))))
     = appended host_cloud (chat_local (\<lambda>p. Inl (Rejected ''session''))) ''Yes, it is.''
   \<and> length (filter ((=) (Call SendChatMessage))
        (snd (snd (handleSend None True host_cloud
                     (chat_local (\<lambda>p. Inl (Rejected ''session''))))))) = 1
   \<and> length (filter (\<lambda>m. role m = Model)
        (history (fst (snd (handleSend None True host_cloud
                     (chat_local (\<lambda>p. Inl (Rejected ''session'')))))))) = 2"
proof -
  let ?st = "chat_local (\<lambda>p. Inl (Rejected ''session''))"
  let ?s = "session0 (\<lambda>p. Inl (Rejected ''session''))"
  have 1: "trim (input ?st) \<noteq> []" and 2: "\<not> isLoading ?st" and 3: "isLocalAI ?st"
    and 4: "localSession ?st = Some ?s" and 5: "prompt ?s (input ?st) = Inl (Rejected ''session'')"
    by (simp_all add: chat_local_def chat0_def session0_def trim_input0)
  have c: "fst (sendChatMessage host_cloud (history ?st) (input ?st) None) = Inr ''Yes, it is.''"
    by (simp add: sendChatMessage_def getAiClient_def host_cloud_def host0_def)
  have m: "length (filter (\<lambda>m. role m = Model) (history ?st)) = 1"
    by (simp add: chat_local_def chat0_def)
  from local_failure_falls_back_to_cloud_once [OF 1 2 3 4 5 TrueI, of None host_cloud] c m
  show ?thesis by (simp add: sendChatMessage_calls appended_def)
qed

end
